theory Spec2Isabelle
  imports Complex_Main
begin

section \<open>Data model\<close>

text \<open>
  The records follow the pydantic models of \<^verbatim>\<open>src/server.py\<close> and the ORM tables of
  \<^verbatim>\<open>src/database.py\<close>. Identifiers, user names and roles are strings, as in the source
  (\<^verbatim>\<open>role: str\<close>); a \<^verbatim>\<open>datetime\<close> is an instant, counted in microseconds; the tape
  lengths of \<^verbatim>\<open>FitmentDetails\<close> are carried around and never computed with.
\<close>

type_synonym datetime = int
type_synonym bytes = string

definition ADMIN :: string where "ADMIN = ''admin''"
definition DISTRIBUTOR :: string where "DISTRIBUTOR = ''distributor''"
definition RETAILER :: string where "RETAILER = ''retailer''"

record User =
  id :: string
  username :: string
  role :: string
  company_name :: "string option"
  contact_number :: "string option"
  created_by :: "string option"
  created_at :: datetime

text \<open>
  A Python value bound to a text column or field: a \<^verbatim>\<open>str\<close> or a \<^verbatim>\<open>bytes\<close> object.
\<close>

datatype bound = Str string | Bytes bytes

text \<open>A row of the table \<^verbatim>\<open>users\<close>: the fields of \<^verbatim>\<open>User\<close> and the stored credential.\<close>

record UserModel = User +
  password_hash :: bound
  password_salt :: bound

record UserCreate =
  username :: string
  password :: string
  role :: string
  company_name :: "string option"
  contact_number :: "string option"

record VehicleDetails =
  registration_no :: string
  chassis_no :: string
  vehicle_make :: string
  vehicle_model :: string
  registration_year :: int
  engine_no :: string

record OwnerDetails =
  owner_name :: string
  contact_number :: string

record FitmentDetails =
  red_20mm :: real
  white_20mm :: real
  yellow_20mm :: real
  red_50mm :: real
  white_50mm :: real
  yellow_50mm :: real
  c3_plates :: int
  c4_plates :: int

text \<open>
  A row of the table \<^verbatim>\<open>relationships\<close>. The surrogate key of the row is left out: no
  code reads it.
\<close>

record RelationshipModel =
  distributor_id :: string
  retailer_id :: string
  created_at :: datetime

text \<open>
  \<^verbatim>\<open>Certificate\<close> and the table row \<^verbatim>\<open>CertificateModel\<close> have the same fields; the
  handlers copy them one by one, so one record stands for both.
\<close>

record Certificate =
  id :: string
  certificate_no :: string
  retailer_id :: string
  dealer_name :: string
  dealer_license :: string
  vehicle_details :: VehicleDetails
  owner_details :: OwnerDetails
  fitment_details :: FitmentDetails
  fitment_date :: datetime
  images :: "string \<rightharpoonup> string"
  status :: string
  created_at :: datetime
  updated_at :: datetime

record CertificateUpdate =
  dealer_name :: "string option"
  dealer_license :: "string option"
  vehicle_details :: "VehicleDetails option"
  owner_details :: "OwnerDetails option"
  fitment_details :: "FitmentDetails option"
  status :: "string option"

text \<open>The persistent store: the three tables, each a list of rows.\<close>

record store =
  users :: "UserModel list"
  relationships :: "RelationshipModel list"
  certificates :: "Certificate list"

section \<open>Errors and the environment\<close>

text \<open>
  Every \<^verbatim>\<open>raise\<close> of the source is a value. \<^verbatim>\<open>HTTPException\<close> carries the status code
  and the detail text the handler gives it: 400 is the conflict or invalid-input kind,
  401 unauthenticated, 403 forbidden, 404 not-found. \<^verbatim>\<open>NotAuthenticated\<close> is the rejection
  that the \<^verbatim>\<open>HTTPBearer\<close> security scheme raises for a request without bearer credentials,
  before any dependency or handler of the repository runs. The others are the Python
  exceptions that escape a handler: \<^verbatim>\<open>scalar_one_or_none\<close> on more than one row, a
  constraint violation at commit, a parameter that the database driver cannot bind to its
  column, a method call on an object that has no such method, and \<^verbatim>\<open>**\<close> applied to
  \<^verbatim>\<open>None\<close>.
\<close>

datatype error =
    HTTPException nat string
  | NotAuthenticated
  | MultipleResultsFound
  | IntegrityError
  | DBAPIError
  | AttributeError
  | TypeError

text \<open>
  What a handler reads from outside the store during one operation: the identifier that
  \<^verbatim>\<open>uuid.uuid4()\<close> produces, the reading of the clock, the random salt, and the library
  functions for hashing and for base64 encoding. All clock readings of one operation are
  the same instant.
\<close>

record env =
  uuid4 :: string
  now :: datetime
  urandom :: bytes
  pbkdf2_hmac :: "bytes \<Rightarrow> bytes \<Rightarrow> bytes"
  sha256_hexdigest :: "string \<Rightarrow> string"
  b64encode :: "bytes \<Rightarrow> string"

text \<open>
  The credential of a request, as \<^verbatim>\<open>get_current_user\<close> sees it: no bearer header at all,
  a token that \<^verbatim>\<open>jwt.decode\<close> rejects, or a decoded payload with its optional \<^verbatim>\<open>sub\<close>
  entry.
\<close>

datatype authorization = NoCredentials | InvalidToken | Payload "string option"

section \<open>The relational backend (\<^verbatim>\<open>src/server.py\<close>, \<^verbatim>\<open>src/database.py\<close>)\<close>

subsection \<open>Store primitives\<close>

text \<open>\<^verbatim>\<open>Result.scalar_one_or_none()\<close>: the only row, nothing, or an exception.\<close>

definition scalar_one_or_none :: "'a list \<Rightarrow> error + 'a option" where
  "scalar_one_or_none rows =
     (case rows of
        [] \<Rightarrow> Inr None
      | [r] \<Rightarrow> Inr (Some r)
      | _ \<Rightarrow> Inl MultipleResultsFound)"

text \<open>
  \<^verbatim>\<open>session.add(row); session.commit()\<close> on the table \<^verbatim>\<open>users\<close>. The columns
  \<^verbatim>\<open>password_hash\<close> and \<^verbatim>\<open>password_salt\<close> are \<^verbatim>\<open>String(255)\<close>: the asyncpg driver
  binds a \<^verbatim>\<open>str\<close> to them and refuses a \<^verbatim>\<open>bytes\<close> object when it encodes the
  parameters of the insert, before the statement reaches the database. After that the
  primary key \<^verbatim>\<open>id\<close> and the unique column \<^verbatim>\<open>username\<close> make the commit fail on a
  duplicate.
\<close>

definition add_user :: "store \<Rightarrow> UserModel \<Rightarrow> error + store" where
  "add_user s row =
     (case (password_hash row, password_salt row) of
        (Str _, Str _) \<Rightarrow>
          if User.id row \<in> set (map User.id (users s))
             \<or> User.username row \<in> set (map User.username (users s))
          then Inl IntegrityError
          else Inr (s\<lparr>users := users s @ [row]\<rparr>)
      | _ \<Rightarrow> Inl DBAPIError)"

text \<open>The same on \<^verbatim>\<open>relationships\<close>, with its constraint \<^verbatim>\<open>uq_distributor_retailer\<close>.\<close>

definition add_relationship :: "store \<Rightarrow> RelationshipModel \<Rightarrow> error + store" where
  "add_relationship s rel =
     (if (distributor_id rel, RelationshipModel.retailer_id rel)
           \<in> set (map (\<lambda>r. (distributor_id r, RelationshipModel.retailer_id r)) (relationships s))
      then Inl IntegrityError
      else Inr (s\<lparr>relationships := relationships s @ [rel]\<rparr>))"

text \<open>
  \<^verbatim>\<open>update(CertificateModel).where(CertificateModel.id == certificate_id).values(...)\<close>:
  every row with that identifier gets the new values.
\<close>

definition update_where_id :: "string \<Rightarrow> (Certificate \<Rightarrow> Certificate) \<Rightarrow> store \<Rightarrow> store" where
  "update_where_id certificate_id values s =
     s\<lparr>certificates :=
         map (\<lambda>c. if Certificate.id c = certificate_id then values c else c) (certificates s)\<rparr>"

definition select_certificate :: "store \<Rightarrow> string \<Rightarrow> Certificate list" where
  "select_certificate s certificate_id =
     filter (\<lambda>c. Certificate.id c = certificate_id) (certificates s)"

text \<open>The uniqueness constraints that \<^verbatim>\<open>src/database.py\<close> declares on the three tables.\<close>

definition constraints :: "store \<Rightarrow> bool" where
  "constraints s \<longleftrightarrow>
     distinct (map User.id (users s))
     \<and> distinct (map User.username (users s))
     \<and> distinct (map (\<lambda>r. (distributor_id r, RelationshipModel.retailer_id r)) (relationships s))
     \<and> distinct (map Certificate.id (certificates s))
     \<and> distinct (map certificate_no (certificates s))"

subsection \<open>Dependencies\<close>

definition credentials_exception :: error where
  "credentials_exception = HTTPException 401 ''Could not validate credentials''"

definition get_current_user :: "store \<Rightarrow> authorization \<Rightarrow> error + User" where
  "get_current_user s credentials =
     (case credentials of
        NoCredentials \<Rightarrow> Inl NotAuthenticated
      | InvalidToken \<Rightarrow> Inl credentials_exception
      | Payload None \<Rightarrow> Inl credentials_exception
      | Payload (Some name) \<Rightarrow>
          (case scalar_one_or_none (filter (\<lambda>u. User.username u = name) (users s)) of
             Inl e \<Rightarrow> Inl e
           | Inr None \<Rightarrow> Inl credentials_exception
           | Inr (Some user_row) \<Rightarrow> Inr (User.truncate user_row)))"

definition require_roles :: "string list \<Rightarrow> User \<Rightarrow> error + User" where
  "require_roles allowed_roles current_user =
     (if User.role current_user \<notin> set allowed_roles
      then Inl (HTTPException 403 ''Insufficient permissions'')
      else Inr current_user)"

subsection \<open>Reading certificates\<close>

definition get_certificates :: "store \<Rightarrow> User \<Rightarrow> error + Certificate list" where
  "get_certificates s current_user =
     (if User.role current_user = ADMIN then Inr (certificates s)
      else if User.role current_user = DISTRIBUTOR then
        (let retailer_ids =
               map RelationshipModel.retailer_id
                 (filter (\<lambda>r. distributor_id r = User.id current_user) (relationships s))
         in if retailer_ids \<noteq> []
            then Inr (filter (\<lambda>c. Certificate.retailer_id c \<in> set retailer_ids) (certificates s))
            else Inr [])
      else Inr (filter (\<lambda>c. Certificate.retailer_id c = User.id current_user) (certificates s)))"

definition get_certificate :: "store \<Rightarrow> string \<Rightarrow> User \<Rightarrow> error + Certificate" where
  "get_certificate s certificate_id current_user =
     (case scalar_one_or_none (select_certificate s certificate_id) of
        Inl e \<Rightarrow> Inl e
      | Inr None \<Rightarrow> Inl (HTTPException 404 ''Certificate not found'')
      | Inr (Some r) \<Rightarrow>
          if User.role current_user = RETAILER
             \<and> Certificate.retailer_id r \<noteq> User.id current_user
          then Inl (HTTPException 403 ''Access forbidden'')
          else if User.role current_user = DISTRIBUTOR then
            (case scalar_one_or_none
                    (filter (\<lambda>rel. distributor_id rel = User.id current_user
                                 \<and> RelationshipModel.retailer_id rel = Certificate.retailer_id r)
                       (relationships s)) of
               Inl e \<Rightarrow> Inl e
             | Inr None \<Rightarrow> Inl (HTTPException 403 ''Access forbidden'')
             | Inr (Some _) \<Rightarrow> Inr r)
          else Inr r)"

subsection \<open>Registration\<close>

definition hash_password :: "env \<Rightarrow> string \<Rightarrow> bytes \<times> bytes" where
  "hash_password e pw = (let salt = urandom e; key = pbkdf2_hmac e pw salt in (salt, key))"

text \<open>
  The handler \<^verbatim>\<open>register_user\<close>, with \<^verbatim>\<open>current_user: Optional[User]\<close> as its signature
  has it. It returns its answer and the store it leaves behind: an exception raised before
  the first commit leaves the store as it was. \<^verbatim>\<open>hash_password\<close> returns two \<^verbatim>\<open>bytes\<close>
  objects, and the handler passes them to the row as they are; of the exceptions of the
  commit it catches \<^verbatim>\<open>IntegrityError\<close> only.
\<close>

definition register_user ::
  "env \<Rightarrow> store \<Rightarrow> UserCreate \<Rightarrow> User option \<Rightarrow> (error + User) \<times> store" where
  "register_user e s user_data current_user =
     (case scalar_one_or_none
             (filter (\<lambda>u. User.username u = UserCreate.username user_data) (users s)) of
        Inl err \<Rightarrow> (Inl err, s)
      | Inr (Some _) \<Rightarrow> (Inl (HTTPException 400 ''Username already registered''), s)
      | Inr None \<Rightarrow>
          if UserCreate.role user_data = ADMIN
          then (Inl (HTTPException 403 ''Cannot create admin users through registration''), s)
          else if UserCreate.role user_data = DISTRIBUTOR
                  \<and> (case current_user of None \<Rightarrow> True | Some cu \<Rightarrow> User.role cu \<noteq> ADMIN)
          then (Inl (HTTPException 403 ''Only admins can create distributors''), s)
          else if UserCreate.role user_data = RETAILER
                  \<and> (case current_user of
                        None \<Rightarrow> True
                      | Some cu \<Rightarrow> User.role cu \<notin> set [ADMIN, DISTRIBUTOR])
          then (Inl (HTTPException 403 ''Only admins or distributors can create retailers''), s)
          else
            (let (salt, hashed_password) = hash_password e (password user_data);
                 user_obj =
                   \<lparr>User.id = uuid4 e,
                    User.username = UserCreate.username user_data,
                    User.role = UserCreate.role user_data,
                    User.company_name = UserCreate.company_name user_data,
                    User.contact_number = UserCreate.contact_number user_data,
                    created_by =
                      (case current_user of None \<Rightarrow> None | Some cu \<Rightarrow> Some (User.id cu)),
                    User.created_at = now e\<rparr>;
                 db_user =
                   User.extend user_obj
                     \<lparr>password_hash = Bytes hashed_password, password_salt = Bytes salt\<rparr>
             in case add_user s db_user of
                  Inl IntegrityError \<Rightarrow> (Inl (HTTPException 400 ''Username already exists''), s)
                | Inl err \<Rightarrow> (Inl err, s)
                | Inr s1 \<Rightarrow>
                    (case current_user of
                       None \<Rightarrow> (Inr user_obj, s1)
                     | Some cu \<Rightarrow>
                         if UserCreate.role user_data = RETAILER \<and> User.role cu = DISTRIBUTOR
                         then
                           (case add_relationship s1
                                   \<lparr>distributor_id = User.id cu,
                                    RelationshipModel.retailer_id = User.id user_obj,
                                    RelationshipModel.created_at = now e\<rparr> of
                              Inl err \<Rightarrow> (Inl err, s1)
                            | Inr s2 \<Rightarrow> (Inr user_obj, s2))
                         else (Inr user_obj, s1))))"

text \<open>
  The route \<^verbatim>\<open>POST /api/auth/register\<close>: the framework resolves the dependency
  \<^verbatim>\<open>Depends(get_current_user)\<close> first and calls the handler with its result.
\<close>

definition post_auth_register ::
  "env \<Rightarrow> store \<Rightarrow> authorization \<Rightarrow> UserCreate \<Rightarrow> (error + User) \<times> store" where
  "post_auth_register e s credentials user_data =
     (case get_current_user s credentials of
        Inl err \<Rightarrow> (Inl err, s)
      | Inr current_user \<Rightarrow> register_user e s user_data (Some current_user))"

subsection \<open>Changing certificates\<close>

text \<open>
  The values that \<^verbatim>\<open>update_certificate\<close> collects in \<^verbatim>\<open>update_fields\<close> from the flat
  fields of the request, and the clock reading for \<^verbatim>\<open>updated_at\<close>.
\<close>

definition update_fields :: "env \<Rightarrow> CertificateUpdate \<Rightarrow> Certificate \<Rightarrow> Certificate" where
  "update_fields e data c =
     c\<lparr>Certificate.dealer_name :=
         (case CertificateUpdate.dealer_name data of
            None \<Rightarrow> Certificate.dealer_name c | Some v \<Rightarrow> v),
       Certificate.dealer_license :=
         (case CertificateUpdate.dealer_license data of
            None \<Rightarrow> Certificate.dealer_license c | Some v \<Rightarrow> v),
       Certificate.status :=
         (case CertificateUpdate.status data of
            None \<Rightarrow> Certificate.status c | Some v \<Rightarrow> v),
       updated_at := now e\<rparr>"

text \<open>
  \<^verbatim>\<open>update_certificate\<close> behind its dependency \<^verbatim>\<open>require_roles([UserRole.RETAILER])\<close>.
  \<^verbatim>\<open>cert_data.dict(exclude_unset=True)\<close> turns the nested models into plain dicts, so
  the call \<^verbatim>\<open>.model_dump()\<close> on a nested entry that is present raises
  \<^verbatim>\<open>AttributeError\<close> before anything is written.
\<close>

definition update_certificate ::
  "env \<Rightarrow> store \<Rightarrow> string \<Rightarrow> CertificateUpdate \<Rightarrow> User \<Rightarrow> (error + Certificate) \<times> store" where
  "update_certificate e s certificate_id cert_data user =
     (case require_roles [RETAILER] user of
        Inl err \<Rightarrow> (Inl err, s)
      | Inr current_user \<Rightarrow>
          (case scalar_one_or_none (select_certificate s certificate_id) of
             Inl err \<Rightarrow> (Inl err, s)
           | Inr None \<Rightarrow> (Inl (HTTPException 404 ''Certificate not found''), s)
           | Inr (Some r) \<Rightarrow>
               if Certificate.retailer_id r \<noteq> User.id current_user
               then (Inl (HTTPException 403 ''Access forbidden''), s)
               else if CertificateUpdate.vehicle_details cert_data \<noteq> None
                       \<or> CertificateUpdate.owner_details cert_data \<noteq> None
                       \<or> CertificateUpdate.fitment_details cert_data \<noteq> None
               then (Inl AttributeError, s)
               else
                 (let s1 = update_where_id certificate_id (update_fields e cert_data) s
                  in case scalar_one_or_none (select_certificate s1 certificate_id) of
                       Inl err \<Rightarrow> (Inl err, s1)
                     | Inr None \<Rightarrow> (Inl AttributeError, s1)
                     | Inr (Some r1) \<Rightarrow> (Inr r1, s1))))"

definition upload_certificate_image ::
  "env \<Rightarrow> store \<Rightarrow> string \<Rightarrow> string \<Rightarrow> bytes \<Rightarrow> User \<Rightarrow> (error + string \<times> string) \<times> store" where
  "upload_certificate_image e s certificate_id image_type contents user =
     (case require_roles [RETAILER] user of
        Inl err \<Rightarrow> (Inl err, s)
      | Inr current_user \<Rightarrow>
          (case scalar_one_or_none (select_certificate s certificate_id) of
             Inl err \<Rightarrow> (Inl err, s)
           | Inr None \<Rightarrow> (Inl (HTTPException 404 ''Certificate not found''), s)
           | Inr (Some r) \<Rightarrow>
               if Certificate.retailer_id r \<noteq> User.id current_user
               then (Inl (HTTPException 403 ''Access forbidden''), s)
               else if image_type \<notin> set [''front'', ''back'', ''side1'', ''side2'']
               then (Inl (HTTPException 400 ''Invalid image type''), s)
               else
                 (let encoded_image = b64encode e contents;
                      new_images = (images r)(image_type \<mapsto> encoded_image)
                  in (Inr (''Image uploaded successfully'', image_type),
                      update_where_id certificate_id
                        (\<lambda>c. c\<lparr>images := new_images, updated_at := now e\<rparr>) s))))"

section \<open>The document backend (\<^verbatim>\<open>src/backend/server.py\<close>)\<close>

text \<open>
  The same three collections, as lists of documents in insertion order and without any
  uniqueness constraint. A user document has no salt; \<^verbatim>\<open>password_salt\<close> stays empty.
\<close>

text \<open>
  MongoDB keeps a \<^verbatim>\<open>datetime\<close> in milliseconds: what a handler writes into a document is
  stored, and read back, without its microseconds.
\<close>

definition bson_datetime :: "datetime \<Rightarrow> datetime" where
  "bson_datetime t = (t div 1000) * 1000"

definition find_one :: "('a \<Rightarrow> bool) \<Rightarrow> 'a list \<Rightarrow> 'a option" where
  "find_one query docs = List.find query docs"

fun update_one :: "('a \<Rightarrow> bool) \<Rightarrow> ('a \<Rightarrow> 'a) \<Rightarrow> 'a list \<Rightarrow> 'a list" where
  "update_one query set_fields [] = []"
| "update_one query set_fields (d # docs) =
     (if query d then set_fields d # docs else d # update_one query set_fields docs)"

definition get_current_user_mongo :: "store \<Rightarrow> authorization \<Rightarrow> error + User" where
  "get_current_user_mongo s credentials =
     (case credentials of
        NoCredentials \<Rightarrow> Inl NotAuthenticated
      | InvalidToken \<Rightarrow> Inl credentials_exception
      | Payload None \<Rightarrow> Inl credentials_exception
      | Payload (Some name) \<Rightarrow>
          (case find_one (\<lambda>u. User.username u = name) (users s) of
             None \<Rightarrow> Inl credentials_exception
           | Some user \<Rightarrow> Inr (User.truncate user)))"

definition register_user_mongo ::
  "env \<Rightarrow> store \<Rightarrow> UserCreate \<Rightarrow> User option \<Rightarrow> (error + User) \<times> store" where
  "register_user_mongo e s user_data current_user =
     (case find_one (\<lambda>u. User.username u = UserCreate.username user_data) (users s) of
        Some _ \<Rightarrow> (Inl (HTTPException 400 ''Username already registered''), s)
      | None \<Rightarrow>
          if UserCreate.role user_data = ADMIN
          then (Inl (HTTPException 403 ''Cannot create admin users through registration''), s)
          else if UserCreate.role user_data = DISTRIBUTOR
                  \<and> (case current_user of None \<Rightarrow> True | Some cu \<Rightarrow> User.role cu \<noteq> ADMIN)
          then (Inl (HTTPException 403 ''Only admins can create distributors''), s)
          else if UserCreate.role user_data = RETAILER
                  \<and> (case current_user of
                        None \<Rightarrow> True
                      | Some cu \<Rightarrow> User.role cu \<notin> set [ADMIN, DISTRIBUTOR])
          then (Inl (HTTPException 403 ''Only admins or distributors can create retailers''), s)
          else
            (let hashed_password = sha256_hexdigest e (password user_data);
                 user_obj =
                   \<lparr>User.id = uuid4 e,
                    User.username = UserCreate.username user_data,
                    User.role = UserCreate.role user_data,
                    User.company_name = UserCreate.company_name user_data,
                    User.contact_number = UserCreate.contact_number user_data,
                    created_by =
                      (case current_user of None \<Rightarrow> None | Some cu \<Rightarrow> Some (User.id cu)),
                    User.created_at = now e\<rparr>;
                 user_doc =
                   User.extend (user_obj\<lparr>User.created_at := bson_datetime (now e)\<rparr>)
                     \<lparr>password_hash = Str hashed_password, password_salt = Str []\<rparr>;
                 s1 = s\<lparr>users := users s @ [user_doc]\<rparr>
             in case current_user of
                  None \<Rightarrow> (Inr user_obj, s1)
                | Some cu \<Rightarrow>
                    if UserCreate.role user_data = RETAILER \<and> User.role cu = DISTRIBUTOR
                    then
                      (Inr user_obj,
                       s1\<lparr>relationships := relationships s1 @
                            [\<lparr>distributor_id = User.id cu,
                              RelationshipModel.retailer_id = User.id user_obj,
                              RelationshipModel.created_at = bson_datetime (now e)\<rparr>]\<rparr>)
                    else (Inr user_obj, s1)))"

definition post_auth_register_mongo ::
  "env \<Rightarrow> store \<Rightarrow> authorization \<Rightarrow> UserCreate \<Rightarrow> (error + User) \<times> store" where
  "post_auth_register_mongo e s credentials user_data =
     (case get_current_user_mongo s credentials of
        Inl err \<Rightarrow> (Inl err, s)
      | Inr current_user \<Rightarrow> register_user_mongo e s user_data (Some current_user))"

definition get_certificates_mongo :: "store \<Rightarrow> User \<Rightarrow> error + Certificate list" where
  "get_certificates_mongo s current_user =
     (if User.role current_user = ADMIN then Inr (certificates s)
      else if User.role current_user = DISTRIBUTOR then
        (let retailer_ids =
               map RelationshipModel.retailer_id
                 (filter (\<lambda>r. distributor_id r = User.id current_user) (relationships s))
         in Inr (filter (\<lambda>c. Certificate.retailer_id c \<in> set retailer_ids) (certificates s)))
      else Inr (filter (\<lambda>c. Certificate.retailer_id c = User.id current_user) (certificates s)))"

definition get_certificate_mongo :: "store \<Rightarrow> string \<Rightarrow> User \<Rightarrow> error + Certificate" where
  "get_certificate_mongo s certificate_id current_user =
     (case find_one (\<lambda>c. Certificate.id c = certificate_id) (certificates s) of
        None \<Rightarrow> Inl (HTTPException 404 ''Certificate not found'')
      | Some cert_obj \<Rightarrow>
          if User.role current_user = RETAILER
             \<and> Certificate.retailer_id cert_obj \<noteq> User.id current_user
          then Inl (HTTPException 403 ''Access forbidden'')
          else if User.role current_user = DISTRIBUTOR then
            (case find_one
                    (\<lambda>rel. distributor_id rel = User.id current_user
                          \<and> RelationshipModel.retailer_id rel = Certificate.retailer_id cert_obj)
                    (relationships s) of
               None \<Rightarrow> Inl (HTTPException 403 ''Access forbidden'')
             | Some _ \<Rightarrow> Inr cert_obj)
          else Inr cert_obj)"

text \<open>
  \<^verbatim>\<open>update_data\<close>, as the document holds it after \<^verbatim>\<open>$set\<close>: every field of the
  request that is not \<^verbatim>\<open>None\<close>, the nested ones too, and the clock reading for
  \<^verbatim>\<open>updated_at\<close>, kept in milliseconds. The handler returns the document that it reads
  back.
\<close>

definition update_data :: "env \<Rightarrow> CertificateUpdate \<Rightarrow> Certificate \<Rightarrow> Certificate" where
  "update_data e data c =
     c\<lparr>Certificate.dealer_name :=
         (case CertificateUpdate.dealer_name data of
            None \<Rightarrow> Certificate.dealer_name c | Some v \<Rightarrow> v),
       Certificate.dealer_license :=
         (case CertificateUpdate.dealer_license data of
            None \<Rightarrow> Certificate.dealer_license c | Some v \<Rightarrow> v),
       Certificate.vehicle_details :=
         (case CertificateUpdate.vehicle_details data of
            None \<Rightarrow> Certificate.vehicle_details c | Some v \<Rightarrow> v),
       Certificate.owner_details :=
         (case CertificateUpdate.owner_details data of
            None \<Rightarrow> Certificate.owner_details c | Some v \<Rightarrow> v),
       Certificate.fitment_details :=
         (case CertificateUpdate.fitment_details data of
            None \<Rightarrow> Certificate.fitment_details c | Some v \<Rightarrow> v),
       Certificate.status :=
         (case CertificateUpdate.status data of
            None \<Rightarrow> Certificate.status c | Some v \<Rightarrow> v),
       updated_at := bson_datetime (now e)\<rparr>"

definition update_certificate_mongo ::
  "env \<Rightarrow> store \<Rightarrow> string \<Rightarrow> CertificateUpdate \<Rightarrow> User \<Rightarrow> (error + Certificate) \<times> store" where
  "update_certificate_mongo e s certificate_id cert_data user =
     (case require_roles [RETAILER] user of
        Inl err \<Rightarrow> (Inl err, s)
      | Inr current_user \<Rightarrow>
          (case find_one (\<lambda>c. Certificate.id c = certificate_id) (certificates s) of
             None \<Rightarrow> (Inl (HTTPException 404 ''Certificate not found''), s)
           | Some certificate \<Rightarrow>
               if Certificate.retailer_id certificate \<noteq> User.id current_user
               then (Inl (HTTPException 403 ''Access forbidden''), s)
               else
                 (let s1 = s\<lparr>certificates :=
                               update_one (\<lambda>c. Certificate.id c = certificate_id)
                                 (update_data e cert_data) (certificates s)\<rparr>
                  in case find_one (\<lambda>c. Certificate.id c = certificate_id) (certificates s1) of
                       None \<Rightarrow> (Inl TypeError, s1)
                     | Some updated_cert \<Rightarrow> (Inr updated_cert, s1))))"

definition upload_certificate_image_mongo ::
  "env \<Rightarrow> store \<Rightarrow> string \<Rightarrow> string \<Rightarrow> bytes \<Rightarrow> User \<Rightarrow> (error + string \<times> string) \<times> store" where
  "upload_certificate_image_mongo e s certificate_id image_type contents user =
     (case require_roles [RETAILER] user of
        Inl err \<Rightarrow> (Inl err, s)
      | Inr current_user \<Rightarrow>
          (case find_one (\<lambda>c. Certificate.id c = certificate_id) (certificates s) of
             None \<Rightarrow> (Inl (HTTPException 404 ''Certificate not found''), s)
           | Some certificate \<Rightarrow>
               if Certificate.retailer_id certificate \<noteq> User.id current_user
               then (Inl (HTTPException 403 ''Access forbidden''), s)
               else if image_type \<notin> set [''front'', ''back'', ''side1'', ''side2'']
               then (Inl (HTTPException 400 ''Invalid image type''), s)
               else
                 (let encoded_image = b64encode e contents
                  in (Inr (''Image uploaded successfully'', image_type),
                      s\<lparr>certificates :=
                          update_one (\<lambda>c. Certificate.id c = certificate_id)
                            (\<lambda>c. c\<lparr>images := (images c)(image_type \<mapsto> encoded_image),
                                   updated_at := bson_datetime (now e)\<rparr>)
                            (certificates s)\<rparr>))))"

section \<open>A sample store\<close>

text \<open>
  An administrator, the distributor \<^verbatim>\<open>dist1\<close> with its retailer \<^verbatim>\<open>ret1\<close>, a retailer
  \<^verbatim>\<open>ret2\<close> registered by the administrator, and the distributor \<^verbatim>\<open>dist2\<close> without
  retailers; \<^verbatim>\<open>ret1\<close> owns two certificates and \<^verbatim>\<open>ret2\<close> one. The concrete instances
  of the theorems below are evaluated on it.
\<close>

definition admin0 :: User where
  "admin0 = \<lparr>User.id = ''u0'', User.username = ''admin'', User.role = ''admin'',
             User.company_name = Some ''System Admin'', User.contact_number = None,
             created_by = None, User.created_at = 0\<rparr>"

definition dist1 :: User where
  "dist1 = \<lparr>User.id = ''u1'', User.username = ''dist1'', User.role = ''distributor'',
            User.company_name = None, User.contact_number = None,
            created_by = Some ''u0'', User.created_at = 10\<rparr>"

definition ret1 :: User where
  "ret1 = \<lparr>User.id = ''u2'', User.username = ''ret1'', User.role = ''retailer'',
           User.company_name = None, User.contact_number = None,
           created_by = Some ''u1'', User.created_at = 20\<rparr>"

definition ret2 :: User where
  "ret2 = \<lparr>User.id = ''u3'', User.username = ''ret2'', User.role = ''retailer'',
           User.company_name = None, User.contact_number = None,
           created_by = Some ''u0'', User.created_at = 30\<rparr>"

definition dist2 :: User where
  "dist2 = \<lparr>User.id = ''u4'', User.username = ''dist2'', User.role = ''distributor'',
            User.company_name = None, User.contact_number = None,
            created_by = Some ''u0'', User.created_at = 40\<rparr>"

definition row :: "User \<Rightarrow> UserModel" where
  "row u = User.extend u \<lparr>password_hash = Str ''key'', password_salt = Str ''salt''\<rparr>"

definition vehicle0 :: VehicleDetails where
  "vehicle0 = \<lparr>registration_no = ''KA01'', chassis_no = ''CH1'', vehicle_make = ''Tata'',
               vehicle_model = ''Ace'', registration_year = 2020, engine_no = ''EN1''\<rparr>"

definition owner0 :: OwnerDetails where
  "owner0 = \<lparr>owner_name = ''Asha'', OwnerDetails.contact_number = ''100''\<rparr>"

definition fitment0 :: FitmentDetails where
  "fitment0 = \<lparr>red_20mm = 0, white_20mm = 0, yellow_20mm = 0, red_50mm = 1,
               white_50mm = 2, yellow_50mm = 3, c3_plates = 0, c4_plates = 1\<rparr>"

definition cert :: "string \<Rightarrow> string \<Rightarrow> string \<Rightarrow> datetime \<Rightarrow> Certificate" where
  "cert i n owner t =
     \<lparr>Certificate.id = i, certificate_no = n, Certificate.retailer_id = owner,
      Certificate.dealer_name = ''Dealer'', Certificate.dealer_license = ''L1'',
      Certificate.vehicle_details = vehicle0, Certificate.owner_details = owner0,
      Certificate.fitment_details = fitment0, fitment_date = t, images = Map.empty,
      Certificate.status = ''draft'', Certificate.created_at = t, updated_at = t\<rparr>"

definition store0 :: store where
  "store0 =
     \<lparr>users = [row admin0, row dist1, row ret1, row ret2, row dist2],
      relationships =
        [\<lparr>distributor_id = ''u1'', RelationshipModel.retailer_id = ''u2'',
          RelationshipModel.created_at = 20\<rparr>],
      certificates =
        [cert ''c1'' ''CERT0001'' ''u2'' 50, cert ''c2'' ''CERT0002'' ''u3'' 60,
         cert ''c3'' ''CERT0003'' ''u2'' 70]\<rparr>"

definition env0 :: env where
  "env0 = \<lparr>uuid4 = ''u9'', now = 100, urandom = ''salt'',
           pbkdf2_hmac = (\<lambda>pw salt. salt @ pw), sha256_hexdigest = rev,
           b64encode = (\<lambda>bs. ''b64:'' @ bs)\<rparr>"

text \<open>A registration request with the given user name and role.\<close>

definition request :: "string \<Rightarrow> string \<Rightarrow> UserCreate" where
  "request name r =
     \<lparr>UserCreate.username = name, password = ''pw'', UserCreate.role = r,
      UserCreate.company_name = None, UserCreate.contact_number = None\<rparr>"

text \<open>An update request that changes the flat fields only, and one with nested details.\<close>

definition flat_update :: CertificateUpdate where
  "flat_update =
     \<lparr>CertificateUpdate.dealer_name = Some ''New Dealer'',
      CertificateUpdate.dealer_license = None,
      CertificateUpdate.vehicle_details = None,
      CertificateUpdate.owner_details = None,
      CertificateUpdate.fitment_details = None,
      CertificateUpdate.status = Some ''submitted''\<rparr>"

definition nested_update :: CertificateUpdate where
  "nested_update = flat_update\<lparr>CertificateUpdate.owner_details := Some owner0\<rparr>"

section \<open>Auxiliary facts\<close>

lemma scalar_one_or_none_Nil: "scalar_one_or_none [] = Inr None"
  by (simp add: scalar_one_or_none_def)

lemma scalar_one_or_none_single: "scalar_one_or_none [r] = Inr (Some r)"
  by (simp add: scalar_one_or_none_def)

lemma select_certificate_unknown:
  "certificate_id \<notin> set (map Certificate.id (certificates s))
   \<Longrightarrow> select_certificate s certificate_id = []"
  by (auto simp: select_certificate_def filter_empty_conv)

lemma find_one_unknown:
  "certificate_id \<notin> set (map Certificate.id (certificates s))
   \<Longrightarrow> find_one (\<lambda>c. Certificate.id c = certificate_id) (certificates s) = None"
  by (auto simp: find_one_def find_None_iff)

section \<open>Listing certificates\<close>

text \<open>
  Claim C2. For a caller whose role is retailer, both backends answer the listing with
  success, and the list is the certificate table restricted to the rows whose
  \<^verbatim>\<open>retailer_id\<close> is the caller's \<^verbatim>\<open>id\<close>: every such row is in it, in table order,
  and no other row is.
\<close>

theorem retailer_listing_exact:
  assumes "User.role i = RETAILER"
  shows "get_certificates s i
           = Inr (filter (\<lambda>c. Certificate.retailer_id c = User.id i) (certificates s))
       \<and> get_certificates_mongo s i
           = Inr (filter (\<lambda>c. Certificate.retailer_id c = User.id i) (certificates s))"
  using assms
  by (simp add: get_certificates_def get_certificates_mongo_def
        ADMIN_def DISTRIBUTOR_def RETAILER_def)

theorem retailer_listing_exact_witness:
  "User.role ret1 = RETAILER
   \<and> get_certificates store0 ret1
       = Inr [cert ''c1'' ''CERT0001'' ''u2'' 50, cert ''c3'' ''CERT0003'' ''u2'' 70]
   \<and> get_certificates_mongo store0 ret1
       = Inr [cert ''c1'' ''CERT0001'' ''u2'' 50, cert ''c3'' ''CERT0003'' ''u2'' 70]"
proof -
  have h: "User.role ret1 = RETAILER"
    by (simp add: ret1_def RETAILER_def)
  show ?thesis
    using h retailer_listing_exact [OF h, of store0]
    by (simp add: store0_def cert_def ret1_def)
qed

text \<open>
  Claim C3. For a caller whose role is distributor, the listing is the certificate table
  restricted to the rows whose \<^verbatim>\<open>retailer_id\<close> is the \<^verbatim>\<open>retailer_id\<close> of some
  relationship row with the caller as \<^verbatim>\<open>distributor_id\<close>; the two backends agree; and
  when there is no such relationship row the answer is the empty list, returned as a
  success.
\<close>

theorem distributor_listing_reachable:
  assumes "User.role d = DISTRIBUTOR"
  shows "get_certificates s d
           = Inr (filter (\<lambda>c. Certificate.retailer_id c
                                \<in> {RelationshipModel.retailer_id r | r.
                                     r \<in> set (relationships s) \<and> distributor_id r = User.id d})
                    (certificates s))
       \<and> get_certificates_mongo s d = get_certificates s d
       \<and> ({RelationshipModel.retailer_id r | r.
              r \<in> set (relationships s) \<and> distributor_id r = User.id d} = {}
            \<longrightarrow> get_certificates s d = Inr [])"
proof -
  let ?ids = "map RelationshipModel.retailer_id
                (filter (\<lambda>r. distributor_id r = User.id d) (relationships s))"
  have reach: "{RelationshipModel.retailer_id r | r.
                 r \<in> set (relationships s) \<and> distributor_id r = User.id d} = set ?ids"
    by auto
  have not_admin: "User.role d \<noteq> ADMIN"
    using assms by (simp add: ADMIN_def DISTRIBUTOR_def)
  have sql: "get_certificates s d
               = Inr (filter (\<lambda>c. Certificate.retailer_id c \<in> set ?ids) (certificates s))"
  proof (cases "?ids = []")
    case True
    then show ?thesis
      using assms not_admin by (simp add: get_certificates_def Let_def)
  next
    case False
    then show ?thesis
      using assms not_admin by (simp add: get_certificates_def Let_def)
  qed
  have mongo: "get_certificates_mongo s d
               = Inr (filter (\<lambda>c. Certificate.retailer_id c \<in> set ?ids) (certificates s))"
    using assms not_admin by (simp add: get_certificates_mongo_def Let_def)
  have same: "get_certificates_mongo s d = get_certificates s d"
    using sql mongo by simp
  have none: "set ?ids = {} \<longrightarrow> get_certificates s d = Inr []"
  proof
    assume "set ?ids = {}"
    then have "?ids = []" by simp
    then show "get_certificates s d = Inr []"
      using assms not_admin by (simp add: get_certificates_def Let_def)
  qed
  show ?thesis
    unfolding reach by (intro conjI) (fact sql, fact same, fact none)
qed

theorem distributor_listing_reachable_witness:
  "User.role dist2 = DISTRIBUTOR
   \<and> {RelationshipModel.retailer_id r | r.
         r \<in> set (relationships store0) \<and> distributor_id r = User.id dist2} = {}
   \<and> get_certificates store0 dist2 = Inr []
   \<and> get_certificates_mongo store0 dist2 = Inr []
   \<and> User.role dist1 = DISTRIBUTOR
   \<and> get_certificates store0 dist1
       = Inr [cert ''c1'' ''CERT0001'' ''u2'' 50, cert ''c3'' ''CERT0003'' ''u2'' 70]"
proof -
  have h: "User.role dist2 = DISTRIBUTOR"
    by (simp add: dist2_def DISTRIBUTOR_def)
  have empty: "{RelationshipModel.retailer_id r | r.
         r \<in> set (relationships store0) \<and> distributor_id r = User.id dist2} = {}"
    by (simp add: store0_def dist2_def)
  have h1: "User.role dist1 = DISTRIBUTOR"
    by (simp add: dist1_def DISTRIBUTOR_def)
  have listed: "get_certificates store0 dist1
       = Inr [cert ''c1'' ''CERT0001'' ''u2'' 50, cert ''c3'' ''CERT0003'' ''u2'' 70]"
    using distributor_listing_reachable [OF h1, of store0]
    by (simp add: store0_def dist1_def cert_def)
  show ?thesis
    using h h1 empty listed distributor_listing_reachable [OF h, of store0]
    by simp
qed

section \<open>Fetching one certificate\<close>

text \<open>
  Claim C8. When no row of the certificate table has the requested identifier,
  \<^verbatim>\<open>get_certificate\<close> answers 404 not-found for every caller, whatever the caller's role
  and relationships: the lookup miss is reported before the permission check, so the answer
  is never the 403 of that check.
\<close>

theorem unknown_certificate_not_found:
  assumes "certificate_id \<notin> set (map Certificate.id (certificates s))"
  shows "get_certificate s certificate_id current_user
           = Inl (HTTPException 404 ''Certificate not found'')
       \<and> get_certificate_mongo s certificate_id current_user
           = Inl (HTTPException 404 ''Certificate not found'')"
  using assms
  by (simp add: get_certificate_def get_certificate_mongo_def select_certificate_unknown
        find_one_unknown scalar_one_or_none_Nil)

theorem unknown_certificate_not_found_witness:
  "''c9'' \<notin> set (map Certificate.id (certificates store0))
   \<and> get_certificate store0 ''c9'' ret2 = Inl (HTTPException 404 ''Certificate not found'')
   \<and> get_certificate_mongo store0 ''c9'' ret2
       = Inl (HTTPException 404 ''Certificate not found'')"
proof -
  have h: "''c9'' \<notin> set (map Certificate.id (certificates store0))"
    by (simp add: store0_def cert_def)
  show ?thesis
    using h unknown_certificate_not_found [OF h, of ret2] by simp
qed

section \<open>Registration\<close>

lemma filter_distinct_key:
  "distinct (map f xs) \<Longrightarrow> x \<in> set xs \<Longrightarrow> filter (\<lambda>y. f y = f x) xs = [x]"
proof (induction xs)
  case Nil
  then show ?case by simp
next
  case (Cons a xs)
  show ?case
  proof (cases "a = x")
    case True
    with Cons.prems have "f x \<notin> set (map f xs)" by simp
    then have "\<forall>y\<in>set xs. f y \<noteq> f x" by (metis image_eqI set_map)
    then have "filter (\<lambda>y. f y = f x) xs = []" by (simp add: filter_empty_conv)
    with True show ?thesis by simp
  next
    case False
    with Cons.prems have "x \<in> set xs" "f a \<noteq> f x" by auto
    with Cons show ?thesis by simp
  qed
qed

lemma select_username_known:
  assumes "distinct (map User.username (users s))"
    and "name \<in> set (map User.username (users s))"
  shows "\<exists>u. filter (\<lambda>u. User.username u = name) (users s) = [u]"
proof -
  from assms(2) obtain u where u: "u \<in> set (users s)" "User.username u = name" by auto
  from filter_distinct_key [OF assms(1) u(1)] u(2) show ?thesis by auto
qed

lemma select_username_fresh:
  "name \<notin> set (map User.username (users s))
   \<Longrightarrow> filter (\<lambda>u. User.username u = name) (users s) = []"
  by (auto simp: filter_empty_conv)

lemma find_one_username_known:
  "name \<in> set (map User.username (users s))
   \<Longrightarrow> \<exists>u. find_one (\<lambda>u. User.username u = name) (users s) = Some u"
  by (cases "find_one (\<lambda>u. User.username u = name) (users s)")
     (auto simp: find_one_def find_None_iff)

lemma find_one_username_fresh:
  "name \<notin> set (map User.username (users s))
   \<Longrightarrow> find_one (\<lambda>u. User.username u = name) (users s) = None"
  by (auto simp: find_one_def find_None_iff)

lemma register_user_known:
  assumes "constraints s"
    and "UserCreate.username user_data \<in> set (map User.username (users s))"
  shows "register_user e s user_data current_user
           = (Inl (HTTPException 400 ''Username already registered''), s)"
proof -
  from assms(1) have "distinct (map User.username (users s))"
    by (simp add: constraints_def)
  from select_username_known [OF this assms(2)] obtain u
    where "filter (\<lambda>u. User.username u = UserCreate.username user_data) (users s) = [u]" ..
  then show ?thesis
    by (simp add: register_user_def scalar_one_or_none_single)
qed

lemma register_user_mongo_known:
  assumes "UserCreate.username user_data \<in> set (map User.username (users s))"
  shows "register_user_mongo e s user_data current_user
           = (Inl (HTTPException 400 ''Username already registered''), s)"
proof -
  from find_one_username_known [OF assms] obtain v
    where "find_one (\<lambda>u. User.username u = UserCreate.username user_data) (users s) = Some v" ..
  then show ?thesis
    by (simp add: register_user_mongo_def)
qed

lemma register_user_admin_fresh:
  assumes "UserCreate.role user_data = ADMIN"
    and "UserCreate.username user_data \<notin> set (map User.username (users s))"
  shows "register_user e s user_data current_user
           = (Inl (HTTPException 403 ''Cannot create admin users through registration''), s)"
  using assms
  by (simp add: register_user_def select_username_fresh scalar_one_or_none_Nil)

lemma register_user_mongo_admin_fresh:
  assumes "UserCreate.role user_data = ADMIN"
    and "UserCreate.username user_data \<notin> set (map User.username (users s))"
  shows "register_user_mongo e s user_data current_user
           = (Inl (HTTPException 403 ''Cannot create admin users through registration''), s)"
  using assms
  by (simp add: register_user_mongo_def find_one_username_fresh)

lemma constraints_store0: "constraints store0"
  by (simp add: constraints_def store0_def row_def cert_def User.defs
        admin0_def dist1_def ret1_def ret2_def dist2_def)

text \<open>
  Claim C6. In a store that satisfies the uniqueness constraints of the schema, registering
  a user name that some user row already carries fails with the conflict answer (400,
  ``Username already registered'') and leaves the store as it was, for every caller,
  present or absent, and for every requested role: the user name is looked up before the
  role of the request or of the caller is inspected.
\<close>

theorem duplicate_username_conflict:
  assumes "constraints s"
    and "UserCreate.username user_data \<in> set (map User.username (users s))"
  shows "register_user e s user_data current_user
           = (Inl (HTTPException 400 ''Username already registered''), s)
       \<and> register_user_mongo e s user_data current_user
           = (Inl (HTTPException 400 ''Username already registered''), s)"
  using register_user_known [OF assms] register_user_mongo_known [OF assms(2)]
  by simp

theorem duplicate_username_conflict_witness:
  "constraints store0
   \<and> UserCreate.username (request ''ret1'' ''admin'') \<in> set (map User.username (users store0))
   \<and> register_user env0 store0 (request ''ret1'' ''admin'') (Some ret2)
       = (Inl (HTTPException 400 ''Username already registered''), store0)
   \<and> register_user_mongo env0 store0 (request ''ret1'' ''admin'') None
       = (Inl (HTTPException 400 ''Username already registered''), store0)"
proof -
  have h: "UserCreate.username (request ''ret1'' ''admin'')
             \<in> set (map User.username (users store0))"
    by (simp add: request_def store0_def row_def ret1_def User.defs)
  show ?thesis
    using h constraints_store0
      duplicate_username_conflict [OF constraints_store0 h, of env0 "Some ret2"]
      duplicate_username_conflict [OF constraints_store0 h, of env0 None]
    by simp
qed

text \<open>
  Claim C5, as stated, fails: a registration with role \<^verbatim>\<open>admin\<close> for a user name that is
  already taken is answered with the conflict 400, not with forbidden, even for an
  administrator as caller.
\<close>

theorem admin_role_counterexample:
  "register_user env0 store0 (request ''dist1'' ''admin'') (Some admin0)
     = (Inl (HTTPException 400 ''Username already registered''), store0)
   \<and> UserCreate.role (request ''dist1'' ''admin'') = ADMIN"
  by (simp add: register_user_def scalar_one_or_none_def request_def store0_def row_def
        admin0_def dist1_def ret1_def ret2_def dist2_def User.defs ADMIN_def)

lemma register_user_admin:
  assumes "UserCreate.role user_data = ADMIN" and "constraints s"
  shows "register_user e s user_data current_user
           = (Inl (if UserCreate.username user_data \<in> set (map User.username (users s))
                   then HTTPException 400 ''Username already registered''
                   else HTTPException 403 ''Cannot create admin users through registration''),
              s)"
    and "register_user_mongo e s user_data current_user
           = (Inl (if UserCreate.username user_data \<in> set (map User.username (users s))
                   then HTTPException 400 ''Username already registered''
                   else HTTPException 403 ''Cannot create admin users through registration''),
              s)"
proof -
  show "register_user e s user_data current_user
           = (Inl (if UserCreate.username user_data \<in> set (map User.username (users s))
                   then HTTPException 400 ''Username already registered''
                   else HTTPException 403 ''Cannot create admin users through registration''),
              s)"
  proof (cases "UserCreate.username user_data \<in> set (map User.username (users s))")
    case True
    with register_user_known [OF assms(2) True] show ?thesis by simp
  next
    case False
    with register_user_admin_fresh [OF assms(1) False] show ?thesis by simp
  qed
  show "register_user_mongo e s user_data current_user
           = (Inl (if UserCreate.username user_data \<in> set (map User.username (users s))
                   then HTTPException 400 ''Username already registered''
                   else HTTPException 403 ''Cannot create admin users through registration''),
              s)"
  proof (cases "UserCreate.username user_data \<in> set (map User.username (users s))")
    case True
    with register_user_mongo_known [OF True] show ?thesis by simp
  next
    case False
    with register_user_mongo_admin_fresh [OF assms(1) False] show ?thesis by simp
  qed
qed

text \<open>
  Claim C5, amended. A registration with role \<^verbatim>\<open>admin\<close> never succeeds and never
  changes the store. For every caller identity, an administrator included, the handler
  answers it with forbidden (403) when the user name is not yet registered and with the
  conflict (400) when it is, in a store that satisfies the uniqueness constraints. The
  route gives that answer whenever the authentication dependency resolves the credentials
  to an identity, and the rejection of the dependency otherwise: a request without a caller
  is rejected as not authenticated before the user name or the role is looked at. The two
  backends agree.
\<close>

theorem admin_role_never_registers:
  assumes "UserCreate.role user_data = ADMIN" and "constraints s"
  shows "register_user e s user_data (Some caller)
           = (Inl (if UserCreate.username user_data \<in> set (map User.username (users s))
                   then HTTPException 400 ''Username already registered''
                   else HTTPException 403 ''Cannot create admin users through registration''),
              s)
       \<and> register_user_mongo e s user_data (Some caller)
           = register_user e s user_data (Some caller)
       \<and> post_auth_register e s credentials user_data
           = (Inl (case get_current_user s credentials of
                     Inl err \<Rightarrow> err
                   | Inr u \<Rightarrow>
                       if UserCreate.username user_data \<in> set (map User.username (users s))
                       then HTTPException 400 ''Username already registered''
                       else HTTPException 403
                              ''Cannot create admin users through registration''),
              s)
       \<and> post_auth_register_mongo e s credentials user_data
           = (Inl (case get_current_user_mongo s credentials of
                     Inl err \<Rightarrow> err
                   | Inr u \<Rightarrow>
                       if UserCreate.username user_data \<in> set (map User.username (users s))
                       then HTTPException 400 ''Username already registered''
                       else HTTPException 403
                              ''Cannot create admin users through registration''),
              s)
       \<and> post_auth_register e s NoCredentials user_data = (Inl NotAuthenticated, s)
       \<and> post_auth_register_mongo e s NoCredentials user_data = (Inl NotAuthenticated, s)"
proof (intro conjI)
  show "register_user e s user_data (Some caller)
           = (Inl (if UserCreate.username user_data \<in> set (map User.username (users s))
                   then HTTPException 400 ''Username already registered''
                   else HTTPException 403 ''Cannot create admin users through registration''),
              s)"
    by (rule register_user_admin(1) [OF assms])
  show "register_user_mongo e s user_data (Some caller)
           = register_user e s user_data (Some caller)"
    by (simp only: register_user_admin [OF assms])
  show "post_auth_register e s credentials user_data
           = (Inl (case get_current_user s credentials of
                     Inl err \<Rightarrow> err
                   | Inr u \<Rightarrow>
                       if UserCreate.username user_data \<in> set (map User.username (users s))
                       then HTTPException 400 ''Username already registered''
                       else HTTPException 403
                              ''Cannot create admin users through registration''),
              s)"
    by (cases "get_current_user s credentials")
       (simp_all add: post_auth_register_def register_user_admin(1) [OF assms])
  show "post_auth_register_mongo e s credentials user_data
           = (Inl (case get_current_user_mongo s credentials of
                     Inl err \<Rightarrow> err
                   | Inr u \<Rightarrow>
                       if UserCreate.username user_data \<in> set (map User.username (users s))
                       then HTTPException 400 ''Username already registered''
                       else HTTPException 403
                              ''Cannot create admin users through registration''),
              s)"
    by (cases "get_current_user_mongo s credentials")
       (simp_all add: post_auth_register_mongo_def register_user_admin(2) [OF assms])
  show "post_auth_register e s NoCredentials user_data = (Inl NotAuthenticated, s)"
    by (simp add: post_auth_register_def get_current_user_def)
  show "post_auth_register_mongo e s NoCredentials user_data = (Inl NotAuthenticated, s)"
    by (simp add: post_auth_register_mongo_def get_current_user_mongo_def)
qed

theorem admin_role_never_registers_witness:
  "UserCreate.role (request ''boss'' ''admin'') = ADMIN \<and> constraints store0
   \<and> register_user env0 store0 (request ''boss'' ''admin'') (Some admin0)
       = (Inl (HTTPException 403 ''Cannot create admin users through registration''), store0)
   \<and> register_user_mongo env0 store0 (request ''boss'' ''admin'') (Some admin0)
       = (Inl (HTTPException 403 ''Cannot create admin users through registration''), store0)
   \<and> post_auth_register env0 store0 (Payload (Some ''admin'')) (request ''boss'' ''admin'')
       = (Inl (HTTPException 403 ''Cannot create admin users through registration''), store0)
   \<and> post_auth_register env0 store0 NoCredentials (request ''boss'' ''admin'')
       = (Inl NotAuthenticated, store0)"
proof -
  have h: "UserCreate.role (request ''boss'' ''admin'') = ADMIN"
    by (simp add: request_def ADMIN_def)
  have fresh: "UserCreate.username (request ''boss'' ''admin'')
                 \<notin> set (map User.username (users store0))"
    by (simp add: request_def store0_def row_def User.defs
          admin0_def dist1_def ret1_def ret2_def dist2_def)
  have known: "get_current_user store0 (Payload (Some ''admin'')) = Inr admin0"
    by (simp add: get_current_user_def scalar_one_or_none_def store0_def row_def User.defs
          admin0_def dist1_def ret1_def ret2_def dist2_def)
  show ?thesis
    using h fresh known constraints_store0
      admin_role_never_registers
        [OF h constraints_store0, of env0 admin0 "Payload (Some ''admin'')"]
    by simp
qed

lemma register_user_fails:
  "\<exists>err. register_user e s user_data current_user = (Inl err, s)"
proof (cases "scalar_one_or_none
                (filter (\<lambda>u. User.username u = UserCreate.username user_data) (users s))")
  case (Inl err)
  then show ?thesis by (simp add: register_user_def)
next
  case (Inr found)
  then show ?thesis
    by (cases found)
       (simp_all add: register_user_def add_user_def hash_password_def Let_def User.defs)
qed

lemma register_user_unrecognized:
  assumes "UserCreate.role user_data \<notin> {ADMIN, DISTRIBUTOR, RETAILER}"
    and "UserCreate.username user_data \<notin> set (map User.username (users s))"
  shows "register_user e s user_data current_user = (Inl DBAPIError, s)"
  using assms
  by (simp add: register_user_def select_username_fresh scalar_one_or_none_Nil
        add_user_def hash_password_def Let_def User.defs)

lemma register_user_mongo_unrecognized:
  assumes "UserCreate.role user_data \<notin> {ADMIN, DISTRIBUTOR, RETAILER}"
    and "UserCreate.username user_data \<notin> set (map User.username (users s))"
  shows "register_user_mongo e s user_data (Some caller)
           = (Inr \<lparr>User.id = uuid4 e,
                   User.username = UserCreate.username user_data,
                   User.role = UserCreate.role user_data,
                   User.company_name = UserCreate.company_name user_data,
                   User.contact_number = UserCreate.contact_number user_data,
                   created_by = Some (User.id caller),
                   User.created_at = now e\<rparr>,
              s\<lparr>users := users s @
                   [\<lparr>User.id = uuid4 e,
                     User.username = UserCreate.username user_data,
                     User.role = UserCreate.role user_data,
                     User.company_name = UserCreate.company_name user_data,
                     User.contact_number = UserCreate.contact_number user_data,
                     created_by = Some (User.id caller),
                     User.created_at = bson_datetime (now e),
                     password_hash = Str (sha256_hexdigest e (password user_data)),
                     password_salt = Str []\<rparr>]\<rparr>)"
  using assms
  by (simp add: register_user_mongo_def find_one_username_fresh Let_def User.defs)

text \<open>
  Claim C4. A registration whose role is none of \<^verbatim>\<open>admin\<close>, \<^verbatim>\<open>distributor\<close>,
  \<^verbatim>\<open>retailer\<close> and whose user name is not yet registered passes through the role chain
  untested, for every caller that the route has authenticated, whatever its role. The
  document handler then does what the claim says: it succeeds and appends a user document
  that carries the requested role as it was given, with the caller as \<^verbatim>\<open>created_by\<close>.
  The relational handler does not: it reaches the commit of the new row, the driver refuses
  the \<^verbatim>\<open>bytes\<close> objects bound to the two text columns, and the request ends in that
  error with nothing stored.
\<close>

theorem unrecognized_role_registers:
  assumes "UserCreate.role user_data \<notin> {ADMIN, DISTRIBUTOR, RETAILER}"
    and "UserCreate.username user_data \<notin> set (map User.username (users s))"
  shows "register_user_mongo e s user_data (Some caller)
           = (Inr \<lparr>User.id = uuid4 e,
                   User.username = UserCreate.username user_data,
                   User.role = UserCreate.role user_data,
                   User.company_name = UserCreate.company_name user_data,
                   User.contact_number = UserCreate.contact_number user_data,
                   created_by = Some (User.id caller),
                   User.created_at = now e\<rparr>,
              s\<lparr>users := users s @
                   [\<lparr>User.id = uuid4 e,
                     User.username = UserCreate.username user_data,
                     User.role = UserCreate.role user_data,
                     User.company_name = UserCreate.company_name user_data,
                     User.contact_number = UserCreate.contact_number user_data,
                     created_by = Some (User.id caller),
                     User.created_at = bson_datetime (now e),
                     password_hash = Str (sha256_hexdigest e (password user_data)),
                     password_salt = Str []\<rparr>]\<rparr>)
       \<and> register_user e s user_data (Some caller) = (Inl DBAPIError, s)"
  using register_user_mongo_unrecognized [OF assms, of e caller]
    register_user_unrecognized [OF assms, of e "Some caller"]
  by (rule conjI)

theorem unrecognized_role_registers_witness:
  "UserCreate.role (request ''eve'' ''Admin'') \<notin> {ADMIN, DISTRIBUTOR, RETAILER}
   \<and> UserCreate.username (request ''eve'' ''Admin'') \<notin> set (map User.username (users store0))
   \<and> register_user env0 store0 (request ''eve'' ''Admin'') (Some ret2)
       = (Inl DBAPIError, store0)
   \<and> fst (register_user_mongo env0 store0 (request ''eve'' ''Admin'') (Some ret2))
       = Inr \<lparr>User.id = ''u9'', User.username = ''eve'', User.role = ''Admin'',
              User.company_name = None, User.contact_number = None,
              created_by = Some ''u3'', User.created_at = 100\<rparr>
   \<and> map User.role
         (users (snd (register_user_mongo env0 store0 (request ''eve'' ''Admin'') (Some ret2))))
       = [''admin'', ''distributor'', ''retailer'', ''retailer'', ''distributor'', ''Admin'']"
proof -
  have role: "UserCreate.role (request ''eve'' ''Admin'') \<notin> {ADMIN, DISTRIBUTOR, RETAILER}"
    by (simp add: request_def ADMIN_def DISTRIBUTOR_def RETAILER_def)
  have name: "UserCreate.username (request ''eve'' ''Admin'')
                \<notin> set (map User.username (users store0))"
    by (simp add: request_def store0_def row_def User.defs
          admin0_def dist1_def ret1_def ret2_def dist2_def)
  show ?thesis
    using role name unrecognized_role_registers [OF role name, of env0 ret2]
    by (simp add: request_def store0_def row_def User.defs env0_def
          admin0_def dist1_def ret1_def ret2_def dist2_def)
qed

lemma register_user_no_caller:
  assumes "UserCreate.username user_data \<notin> set (map User.username (users s))"
  shows "UserCreate.role user_data = DISTRIBUTOR
         \<Longrightarrow> register_user e s user_data None
             = (Inl (HTTPException 403 ''Only admins can create distributors''), s)"
    and "UserCreate.role user_data = RETAILER
         \<Longrightarrow> register_user e s user_data None
             = (Inl (HTTPException 403 ''Only admins or distributors can create retailers''), s)"
  using assms
  by (simp_all add: register_user_def select_username_fresh scalar_one_or_none_Nil
        ADMIN_def DISTRIBUTOR_def RETAILER_def)

lemma register_user_mongo_no_caller:
  assumes "UserCreate.username user_data \<notin> set (map User.username (users s))"
  shows "UserCreate.role user_data = DISTRIBUTOR
         \<Longrightarrow> register_user_mongo e s user_data None
             = (Inl (HTTPException 403 ''Only admins can create distributors''), s)"
    and "UserCreate.role user_data = RETAILER
         \<Longrightarrow> register_user_mongo e s user_data None
             = (Inl (HTTPException 403 ''Only admins or distributors can create retailers''), s)"
  using assms
  by (simp_all add: register_user_mongo_def find_one_username_fresh
        ADMIN_def DISTRIBUTOR_def RETAILER_def)

text \<open>
  Claim C7, as stated, fails: a registration request without credentials, or with a token
  that does not validate, never reaches the role rules. The route answers it from the
  authentication dependency, where the handler called without a caller would have answered
  with the 403 of the distributor rule.
\<close>

theorem missing_caller_counterexample:
  "post_auth_register env0 store0 NoCredentials (request ''newd'' ''distributor'')
     = (Inl NotAuthenticated, store0)
   \<and> post_auth_register env0 store0 InvalidToken (request ''newd'' ''distributor'')
     = (Inl (HTTPException 401 ''Could not validate credentials''), store0)
   \<and> register_user env0 store0 (request ''newd'' ''distributor'') None
     = (Inl (HTTPException 403 ''Only admins can create distributors''), store0)"
  by (simp add: post_auth_register_def get_current_user_def credentials_exception_def
        register_user_def scalar_one_or_none_def request_def store0_def row_def User.defs
        admin0_def dist1_def ret1_def ret2_def dist2_def ADMIN_def DISTRIBUTOR_def)

text \<open>
  Claim C7, amended. The handler \<^verbatim>\<open>register_user\<close> is written for an optional caller,
  and called without one its role rules deny a distributor and a retailer registration
  with forbidden. The route, however, obtains the caller from \<^verbatim>\<open>get_current_user\<close>: every
  rejection of that dependency (no credentials, an invalid token, a token without subject)
  is the answer of the route and leaves the store unchanged, before the handler
  runs, and when the dependency resolves to an identity the handler is called with that
  identity. Both backends behave so.
\<close>

theorem register_route_authenticates_first:
  "(\<forall>err. get_current_user s credentials = Inl err
          \<longrightarrow> post_auth_register e s credentials user_data = (Inl err, s))
   \<and> (\<forall>u. get_current_user s credentials = Inr u
          \<longrightarrow> post_auth_register e s credentials user_data
              = register_user e s user_data (Some u))
   \<and> get_current_user s NoCredentials = Inl NotAuthenticated
   \<and> get_current_user s InvalidToken = Inl (HTTPException 401 ''Could not validate credentials'')
   \<and> get_current_user s (Payload None)
       = Inl (HTTPException 401 ''Could not validate credentials'')
   \<and> (UserCreate.username user_data \<notin> set (map User.username (users s))
        \<and> UserCreate.role user_data = DISTRIBUTOR
       \<longrightarrow> register_user e s user_data None
           = (Inl (HTTPException 403 ''Only admins can create distributors''), s))
   \<and> (UserCreate.username user_data \<notin> set (map User.username (users s))
        \<and> UserCreate.role user_data = RETAILER
       \<longrightarrow> register_user e s user_data None
           = (Inl (HTTPException 403 ''Only admins or distributors can create retailers''), s))
   \<and> (\<forall>err. get_current_user_mongo s credentials = Inl err
          \<longrightarrow> post_auth_register_mongo e s credentials user_data = (Inl err, s))
   \<and> (\<forall>u. get_current_user_mongo s credentials = Inr u
          \<longrightarrow> post_auth_register_mongo e s credentials user_data
              = register_user_mongo e s user_data (Some u))
   \<and> get_current_user_mongo s NoCredentials = Inl NotAuthenticated
   \<and> (UserCreate.username user_data \<notin> set (map User.username (users s))
        \<and> UserCreate.role user_data = DISTRIBUTOR
       \<longrightarrow> register_user_mongo e s user_data None
           = (Inl (HTTPException 403 ''Only admins can create distributors''), s))
   \<and> (UserCreate.username user_data \<notin> set (map User.username (users s))
        \<and> UserCreate.role user_data = RETAILER
       \<longrightarrow> register_user_mongo e s user_data None
           = (Inl (HTTPException 403 ''Only admins or distributors can create retailers''),
              s))"
proof (intro conjI)
  show "\<forall>err. get_current_user s credentials = Inl err
          \<longrightarrow> post_auth_register e s credentials user_data = (Inl err, s)"
    by (simp add: post_auth_register_def)
  show "\<forall>u. get_current_user s credentials = Inr u
          \<longrightarrow> post_auth_register e s credentials user_data
              = register_user e s user_data (Some u)"
    by (simp add: post_auth_register_def)
  show "get_current_user s NoCredentials = Inl NotAuthenticated"
    by (simp add: get_current_user_def)
  show "get_current_user s InvalidToken
          = Inl (HTTPException 401 ''Could not validate credentials'')"
    by (simp add: get_current_user_def credentials_exception_def)
  show "get_current_user s (Payload None)
          = Inl (HTTPException 401 ''Could not validate credentials'')"
    by (simp add: get_current_user_def credentials_exception_def)
  show "\<forall>err. get_current_user_mongo s credentials = Inl err
          \<longrightarrow> post_auth_register_mongo e s credentials user_data = (Inl err, s)"
    by (simp add: post_auth_register_mongo_def)
  show "\<forall>u. get_current_user_mongo s credentials = Inr u
          \<longrightarrow> post_auth_register_mongo e s credentials user_data
              = register_user_mongo e s user_data (Some u)"
    by (simp add: post_auth_register_mongo_def)
  show "get_current_user_mongo s NoCredentials = Inl NotAuthenticated"
    by (simp add: get_current_user_mongo_def)
qed (simp_all add: register_user_no_caller register_user_mongo_no_caller)

theorem register_route_authenticates_first_witness:
  "get_current_user store0 NoCredentials = Inl NotAuthenticated
   \<and> post_auth_register env0 store0 NoCredentials (request ''newr'' ''retailer'')
       = (Inl NotAuthenticated, store0)
   \<and> UserCreate.username (request ''newr'' ''retailer'')
        \<notin> set (map User.username (users store0))
   \<and> UserCreate.role (request ''newr'' ''retailer'') = RETAILER
   \<and> register_user env0 store0 (request ''newr'' ''retailer'') None
       = (Inl (HTTPException 403 ''Only admins or distributors can create retailers''), store0)
   \<and> get_current_user store0 (Payload (Some ''dist1'')) = Inr dist1
   \<and> post_auth_register env0 store0 (Payload (Some ''dist1'')) (request ''newr'' ''retailer'')
       = register_user env0 store0 (request ''newr'' ''retailer'') (Some dist1)"
proof -
  have none: "get_current_user store0 NoCredentials = Inl NotAuthenticated"
    by (simp add: get_current_user_def)
  have name: "UserCreate.username (request ''newr'' ''retailer'')
                \<notin> set (map User.username (users store0))"
    by (simp add: request_def store0_def row_def User.defs
          admin0_def dist1_def ret1_def ret2_def dist2_def)
  have role: "UserCreate.role (request ''newr'' ''retailer'') = RETAILER"
    by (simp add: request_def RETAILER_def)
  have known: "get_current_user store0 (Payload (Some ''dist1'')) = Inr dist1"
    by (simp add: get_current_user_def scalar_one_or_none_def store0_def row_def User.defs
          admin0_def dist1_def ret1_def ret2_def dist2_def)
  show ?thesis
    using none name role known
      register_route_authenticates_first
        [of store0 NoCredentials env0 "request ''newr'' ''retailer''"]
      register_route_authenticates_first
        [of store0 "Payload (Some ''dist1'')" env0 "request ''newr'' ''retailer''"]
    by simp
qed


section \<open>Changing certificates\<close>

subsection \<open>Rows selected and rows left alone\<close>

lemma select_certificate_known:
  assumes "distinct (map Certificate.id (certificates s))" and "c \<in> set (certificates s)"
  shows "select_certificate s (Certificate.id c) = [c]"
  using filter_distinct_key [OF assms] by (simp add: select_certificate_def)

lemma select_certificate_member:
  "select_certificate s certificate_id = [r]
   \<Longrightarrow> r \<in> set (certificates s) \<and> Certificate.id r = certificate_id"
proof -
  assume "select_certificate s certificate_id = [r]"
  then have "r \<in> set (filter (\<lambda>c. Certificate.id c = certificate_id) (certificates s))"
    by (simp add: select_certificate_def)
  then show ?thesis by simp
qed

lemma select_certificate_only:
  assumes "select_certificate s certificate_id = [r]"
    and "c \<in> set (certificates s)" and "Certificate.id c = certificate_id"
  shows "c = r"
proof -
  from assms(2,3) have "c \<in> set (select_certificate s certificate_id)"
    by (simp add: select_certificate_def)
  with assms(1) show ?thesis by simp
qed

lemma filter_map_update:
  "(\<And>c. key (f c) = key c)
   \<Longrightarrow> filter (\<lambda>c. key c = k) (map (\<lambda>c. if key c = k then f c else c) xs)
       = map f (filter (\<lambda>c. key c = k) xs)"
  by (induction xs) auto

lemma select_update_where_id:
  assumes "\<And>c. Certificate.id (f c) = Certificate.id c"
  shows "select_certificate (update_where_id certificate_id f s) certificate_id
           = map f (select_certificate s certificate_id)"
  using filter_map_update [of Certificate.id f certificate_id "certificates s", OF assms]
  by (simp add: select_certificate_def update_where_id_def)

lemma filter_map_frame:
  "(\<And>x. x \<in> set xs \<Longrightarrow> P (g x) = P x \<and> (P x \<longrightarrow> g x = x))
   \<Longrightarrow> filter P (map g xs) = filter P xs"
  by (induction xs) auto

lemma update_fields_frame:
  "Certificate.id (update_fields e data c) = Certificate.id c"
  "certificate_no (update_fields e data c) = certificate_no c"
  "Certificate.retailer_id (update_fields e data c) = Certificate.retailer_id c"
  "updated_at (update_fields e data c) = now e"
  by (simp_all add: update_fields_def)

lemma update_data_frame:
  "Certificate.id (update_data e data c) = Certificate.id c"
  "certificate_no (update_data e data c) = certificate_no c"
  "Certificate.retailer_id (update_data e data c) = Certificate.retailer_id c"
  "updated_at (update_data e data c) = bson_datetime (now e)"
  by (simp_all add: update_data_def)

lemma update_where_id_others:
  assumes "select_certificate s certificate_id = [r]"
    and "Certificate.retailer_id r = owner"
    and "\<And>c. Certificate.retailer_id (f c) = Certificate.retailer_id c"
  shows "filter (\<lambda>c. Certificate.retailer_id c \<noteq> owner)
           (certificates (update_where_id certificate_id f s))
         = filter (\<lambda>c. Certificate.retailer_id c \<noteq> owner) (certificates s)"
proof -
  have "filter (\<lambda>c. Certificate.retailer_id c \<noteq> owner)
          (map (\<lambda>c. if Certificate.id c = certificate_id then f c else c) (certificates s))
        = filter (\<lambda>c. Certificate.retailer_id c \<noteq> owner) (certificates s)"
  proof (rule filter_map_frame)
    fix x assume x: "x \<in> set (certificates s)"
    show "(Certificate.retailer_id
             (if Certificate.id x = certificate_id then f x else x) \<noteq> owner)
            = (Certificate.retailer_id x \<noteq> owner)
          \<and> (Certificate.retailer_id x \<noteq> owner
               \<longrightarrow> (if Certificate.id x = certificate_id then f x else x) = x)"
    proof (cases "Certificate.id x = certificate_id")
      case True
      with select_certificate_only [OF assms(1) x] have "x = r" by simp
      with True assms(2,3) show ?thesis by simp
    next
      case False
      then show ?thesis by simp
    qed
  qed
  then show ?thesis by (simp add: update_where_id_def)
qed

subsection \<open>The relational handlers, case by case\<close>

lemma update_certificate_not_retailer:
  "User.role user \<noteq> RETAILER
   \<Longrightarrow> update_certificate e s certificate_id cert_data user
       = (Inl (HTTPException 403 ''Insufficient permissions''), s)"
  by (simp add: update_certificate_def require_roles_def)

lemma update_certificate_not_owner:
  assumes "User.role user = RETAILER" and "select_certificate s certificate_id = [r]"
    and "Certificate.retailer_id r \<noteq> User.id user"
  shows "update_certificate e s certificate_id cert_data user
           = (Inl (HTTPException 403 ''Access forbidden''), s)"
  using assms
  by (simp add: update_certificate_def require_roles_def scalar_one_or_none_single)

lemma update_certificate_owner:
  assumes "User.role user = RETAILER" and "select_certificate s certificate_id = [r]"
    and "Certificate.retailer_id r = User.id user"
    and "CertificateUpdate.vehicle_details cert_data = None"
    and "CertificateUpdate.owner_details cert_data = None"
    and "CertificateUpdate.fitment_details cert_data = None"
  shows "update_certificate e s certificate_id cert_data user
           = (Inr (update_fields e cert_data r),
              update_where_id certificate_id (update_fields e cert_data) s)"
  using assms
  by (simp add: update_certificate_def require_roles_def scalar_one_or_none_single
        select_update_where_id update_fields_frame Let_def)

lemma update_certificate_cases:
  "(\<exists>err. update_certificate e s certificate_id cert_data user = (Inl err, s))
   \<or> (\<exists>r. User.role user = RETAILER
          \<and> select_certificate s certificate_id = [r]
          \<and> Certificate.retailer_id r = User.id user
          \<and> update_certificate e s certificate_id cert_data user
              = (Inr (update_fields e cert_data r),
                 update_where_id certificate_id (update_fields e cert_data) s))"
proof (cases "User.role user = RETAILER")
  case False
  then show ?thesis by (simp add: update_certificate_not_retailer)
next
  case role: True
  show ?thesis
  proof (cases "select_certificate s certificate_id")
    case Nil
    with role show ?thesis
      by (simp add: update_certificate_def require_roles_def scalar_one_or_none_Nil)
  next
    case (Cons r rest)
    show ?thesis
    proof (cases rest)
      case (Cons r2 rest2)
      with \<open>select_certificate s certificate_id = r # rest\<close> role show ?thesis
        by (simp add: update_certificate_def require_roles_def scalar_one_or_none_def)
    next
      case Nil
      with Cons have r: "select_certificate s certificate_id = [r]" by simp
      show ?thesis
      proof (cases "Certificate.retailer_id r = User.id user")
        case False
        with update_certificate_not_owner [OF role r] show ?thesis by simp
      next
        case own: True
        show ?thesis
        proof (cases "CertificateUpdate.vehicle_details cert_data = None
                      \<and> CertificateUpdate.owner_details cert_data = None
                      \<and> CertificateUpdate.fitment_details cert_data = None")
          case True
          with update_certificate_owner [OF role r own] role r own show ?thesis by simp
        next
          case False
          with role r own show ?thesis
            by (auto simp: update_certificate_def require_roles_def scalar_one_or_none_single)
        qed
      qed
    qed
  qed
qed

lemma upload_certificate_image_not_retailer:
  "User.role user \<noteq> RETAILER
   \<Longrightarrow> upload_certificate_image e s certificate_id image_type contents user
       = (Inl (HTTPException 403 ''Insufficient permissions''), s)"
  by (simp add: upload_certificate_image_def require_roles_def)

lemma upload_certificate_image_not_owner:
  assumes "User.role user = RETAILER" and "select_certificate s certificate_id = [r]"
    and "Certificate.retailer_id r \<noteq> User.id user"
  shows "upload_certificate_image e s certificate_id image_type contents user
           = (Inl (HTTPException 403 ''Access forbidden''), s)"
  using assms
  by (simp add: upload_certificate_image_def require_roles_def scalar_one_or_none_single)

lemma upload_certificate_image_owner:
  assumes "User.role user = RETAILER" and "select_certificate s certificate_id = [r]"
    and "Certificate.retailer_id r = User.id user"
    and "image_type \<in> set [''front'', ''back'', ''side1'', ''side2'']"
  shows "upload_certificate_image e s certificate_id image_type contents user
           = (Inr (''Image uploaded successfully'', image_type),
              update_where_id certificate_id
                (\<lambda>c. c\<lparr>images := (images r)(image_type \<mapsto> b64encode e contents),
                       updated_at := now e\<rparr>) s)"
  using assms
  by (simp add: upload_certificate_image_def require_roles_def scalar_one_or_none_single
        Let_def)

lemma upload_certificate_image_cases:
  "(\<exists>err. upload_certificate_image e s certificate_id image_type contents user = (Inl err, s))
   \<or> (\<exists>r. User.role user = RETAILER
          \<and> select_certificate s certificate_id = [r]
          \<and> Certificate.retailer_id r = User.id user
          \<and> upload_certificate_image e s certificate_id image_type contents user
              = (Inr (''Image uploaded successfully'', image_type),
                 update_where_id certificate_id
                   (\<lambda>c. c\<lparr>images := (images r)(image_type \<mapsto> b64encode e contents),
                          updated_at := now e\<rparr>) s))"
proof (cases "User.role user = RETAILER")
  case False
  then show ?thesis by (simp add: upload_certificate_image_not_retailer)
next
  case role: True
  show ?thesis
  proof (cases "select_certificate s certificate_id")
    case Nil
    with role show ?thesis
      by (simp add: upload_certificate_image_def require_roles_def scalar_one_or_none_Nil)
  next
    case (Cons r rest)
    show ?thesis
    proof (cases rest)
      case (Cons r2 rest2)
      with \<open>select_certificate s certificate_id = r # rest\<close> role show ?thesis
        by (simp add: upload_certificate_image_def require_roles_def scalar_one_or_none_def)
    next
      case Nil
      with Cons have r: "select_certificate s certificate_id = [r]" by simp
      show ?thesis
      proof (cases "Certificate.retailer_id r = User.id user")
        case False
        with upload_certificate_image_not_owner [OF role r] show ?thesis by simp
      next
        case own: True
        show ?thesis
        proof (cases "image_type \<in> set [''front'', ''back'', ''side1'', ''side2'']")
          case True
          with upload_certificate_image_owner [OF role r own] role r own show ?thesis
            by simp
        next
          case False
          with role r own show ?thesis
            by (simp add: upload_certificate_image_def require_roles_def
                  scalar_one_or_none_single)
        qed
      qed
    qed
  qed
qed

subsection \<open>The document handlers, case by case\<close>

lemma find_one_member:
  "find_one P xs = Some x \<Longrightarrow> x \<in> set xs \<and> P x"
  unfolding find_one_def by (induction xs) (auto split: if_splits)

lemma find_one_known:
  "distinct (map f xs) \<Longrightarrow> x \<in> set xs \<Longrightarrow> find_one (\<lambda>y. f y = f x) xs = Some x"
  unfolding find_one_def by (induction xs) force+

lemma update_one_find:
  "find_one P xs = Some c \<Longrightarrow> P (f c) \<Longrightarrow> find_one P (update_one P f xs) = Some (f c)"
  unfolding find_one_def by (induction xs) (auto split: if_splits)

lemma update_one_others:
  "find_one P xs = Some c \<Longrightarrow> \<not> Q c \<Longrightarrow> \<not> Q (f c)
   \<Longrightarrow> filter Q (update_one P f xs) = filter Q xs"
  unfolding find_one_def by (induction xs) (auto split: if_splits)

lemma update_certificate_mongo_not_retailer:
  "User.role user \<noteq> RETAILER
   \<Longrightarrow> update_certificate_mongo e s certificate_id cert_data user
       = (Inl (HTTPException 403 ''Insufficient permissions''), s)"
  by (simp add: update_certificate_mongo_def require_roles_def)

lemma update_certificate_mongo_not_owner:
  assumes "User.role user = RETAILER"
    and "find_one (\<lambda>c. Certificate.id c = certificate_id) (certificates s) = Some r"
    and "Certificate.retailer_id r \<noteq> User.id user"
  shows "update_certificate_mongo e s certificate_id cert_data user
           = (Inl (HTTPException 403 ''Access forbidden''), s)"
  using assms by (simp add: update_certificate_mongo_def require_roles_def)

lemma update_certificate_mongo_owner:
  assumes "User.role user = RETAILER"
    and "find_one (\<lambda>c. Certificate.id c = certificate_id) (certificates s) = Some r"
    and "Certificate.retailer_id r = User.id user"
  shows "update_certificate_mongo e s certificate_id cert_data user
           = (Inr (update_data e cert_data r),
              s\<lparr>certificates :=
                  update_one (\<lambda>c. Certificate.id c = certificate_id)
                    (update_data e cert_data) (certificates s)\<rparr>)"
proof -
  from find_one_member [OF assms(2)] have "Certificate.id r = certificate_id" by simp
  then have "Certificate.id (update_data e cert_data r) = certificate_id"
    by (simp add: update_data_frame)
  from update_one_find [OF assms(2), of "update_data e cert_data", OF this] assms
  show ?thesis
    by (simp add: update_certificate_mongo_def require_roles_def Let_def)
qed

lemma update_certificate_mongo_cases:
  "(\<exists>err. update_certificate_mongo e s certificate_id cert_data user = (Inl err, s))
   \<or> (\<exists>r. User.role user = RETAILER
          \<and> find_one (\<lambda>c. Certificate.id c = certificate_id) (certificates s) = Some r
          \<and> Certificate.retailer_id r = User.id user
          \<and> update_certificate_mongo e s certificate_id cert_data user
              = (Inr (update_data e cert_data r),
                 s\<lparr>certificates :=
                     update_one (\<lambda>c. Certificate.id c = certificate_id)
                       (update_data e cert_data) (certificates s)\<rparr>))"
proof (cases "User.role user = RETAILER")
  case False
  then show ?thesis by (simp add: update_certificate_mongo_not_retailer)
next
  case role: True
  show ?thesis
  proof (cases "find_one (\<lambda>c. Certificate.id c = certificate_id) (certificates s)")
    case None
    with role show ?thesis
      by (simp add: update_certificate_mongo_def require_roles_def)
  next
    case (Some r)
    show ?thesis
    proof (cases "Certificate.retailer_id r = User.id user")
      case False
      with update_certificate_mongo_not_owner [OF role Some] show ?thesis by simp
    next
      case True
      with update_certificate_mongo_owner [OF role Some True] role Some show ?thesis by simp
    qed
  qed
qed

lemma upload_certificate_image_mongo_not_retailer:
  "User.role user \<noteq> RETAILER
   \<Longrightarrow> upload_certificate_image_mongo e s certificate_id image_type contents user
       = (Inl (HTTPException 403 ''Insufficient permissions''), s)"
  by (simp add: upload_certificate_image_mongo_def require_roles_def)

lemma upload_certificate_image_mongo_not_owner:
  assumes "User.role user = RETAILER"
    and "find_one (\<lambda>c. Certificate.id c = certificate_id) (certificates s) = Some r"
    and "Certificate.retailer_id r \<noteq> User.id user"
  shows "upload_certificate_image_mongo e s certificate_id image_type contents user
           = (Inl (HTTPException 403 ''Access forbidden''), s)"
  using assms by (simp add: upload_certificate_image_mongo_def require_roles_def)

lemma upload_certificate_image_mongo_owner:
  assumes "User.role user = RETAILER"
    and "find_one (\<lambda>c. Certificate.id c = certificate_id) (certificates s) = Some r"
    and "Certificate.retailer_id r = User.id user"
    and "image_type \<in> set [''front'', ''back'', ''side1'', ''side2'']"
  shows "upload_certificate_image_mongo e s certificate_id image_type contents user
           = (Inr (''Image uploaded successfully'', image_type),
              s\<lparr>certificates :=
                  update_one (\<lambda>c. Certificate.id c = certificate_id)
                    (\<lambda>c. c\<lparr>images := (images c)(image_type \<mapsto> b64encode e contents),
                           updated_at := bson_datetime (now e)\<rparr>)
                    (certificates s)\<rparr>)"
  using assms
  by (simp add: upload_certificate_image_mongo_def require_roles_def Let_def)

lemma upload_certificate_image_mongo_cases:
  "(\<exists>err. upload_certificate_image_mongo e s certificate_id image_type contents user
            = (Inl err, s))
   \<or> (\<exists>r. User.role user = RETAILER
          \<and> find_one (\<lambda>c. Certificate.id c = certificate_id) (certificates s) = Some r
          \<and> Certificate.retailer_id r = User.id user
          \<and> upload_certificate_image_mongo e s certificate_id image_type contents user
              = (Inr (''Image uploaded successfully'', image_type),
                 s\<lparr>certificates :=
                     update_one (\<lambda>c. Certificate.id c = certificate_id)
                       (\<lambda>c. c\<lparr>images := (images c)(image_type \<mapsto> b64encode e contents),
                              updated_at := bson_datetime (now e)\<rparr>)
                       (certificates s)\<rparr>))"
proof (cases "User.role user = RETAILER")
  case False
  then show ?thesis by (simp add: upload_certificate_image_mongo_not_retailer)
next
  case role: True
  show ?thesis
  proof (cases "find_one (\<lambda>c. Certificate.id c = certificate_id) (certificates s)")
    case None
    with role show ?thesis
      by (simp add: upload_certificate_image_mongo_def require_roles_def)
  next
    case (Some r)
    show ?thesis
    proof (cases "Certificate.retailer_id r = User.id user")
      case False
      with upload_certificate_image_mongo_not_owner [OF role Some] show ?thesis by simp
    next
      case own: True
      show ?thesis
      proof (cases "image_type \<in> set [''front'', ''back'', ''side1'', ''side2'']")
        case True
        with upload_certificate_image_mongo_owner [OF role Some own] role Some own
        show ?thesis by simp
      next
        case False
        with role Some own show ?thesis
          by (simp add: upload_certificate_image_mongo_def require_roles_def)
      qed
    qed
  qed
qed


subsection \<open>Who may change a certificate\<close>

lemma update_certificate_owner_only:
  fixes e s certificate_id cert_data user
  defines "run \<equiv> update_certificate e s certificate_id cert_data user"
  shows "User.role user \<noteq> RETAILER
         \<Longrightarrow> run = (Inl (HTTPException 403 ''Insufficient permissions''), s)"
    and "\<lbrakk>User.role user = RETAILER; constraints s; c \<in> set (certificates s);
          Certificate.id c = certificate_id; Certificate.retailer_id c \<noteq> User.id user\<rbrakk>
         \<Longrightarrow> run = (Inl (HTTPException 403 ''Access forbidden''), s)"
    and "fst run = Inr r1
         \<Longrightarrow> User.role user = RETAILER
             \<and> (\<exists>c\<in>set (certificates s). Certificate.id c = certificate_id
                    \<and> Certificate.retailer_id c = User.id user)"
    and "filter (\<lambda>c. Certificate.retailer_id c \<noteq> User.id user) (certificates (snd run))
           = filter (\<lambda>c. Certificate.retailer_id c \<noteq> User.id user) (certificates s)"
proof -
  show "User.role user \<noteq> RETAILER
        \<Longrightarrow> run = (Inl (HTTPException 403 ''Insufficient permissions''), s)"
    unfolding run_def by (rule update_certificate_not_retailer)
next
  assume role: "User.role user = RETAILER" and cs: "constraints s"
    and c: "c \<in> set (certificates s)" "Certificate.id c = certificate_id"
    and other: "Certificate.retailer_id c \<noteq> User.id user"
  from cs have "distinct (map Certificate.id (certificates s))"
    by (simp add: constraints_def)
  from select_certificate_known [OF this c(1)] c(2)
  have "select_certificate s certificate_id = [c]" by simp
  from update_certificate_not_owner [OF role this other]
  show "run = (Inl (HTTPException 403 ''Access forbidden''), s)"
    unfolding run_def .
next
  assume ok: "fst run = Inr r1"
  from update_certificate_cases [of e s certificate_id cert_data user] ok
  obtain r where "User.role user = RETAILER" "select_certificate s certificate_id = [r]"
    "Certificate.retailer_id r = User.id user"
    unfolding run_def by auto
  with select_certificate_member [of s certificate_id r]
  show "User.role user = RETAILER
        \<and> (\<exists>c\<in>set (certificates s). Certificate.id c = certificate_id
               \<and> Certificate.retailer_id c = User.id user)"
    by auto
next
  from update_certificate_cases [of e s certificate_id cert_data user]
  show "filter (\<lambda>c. Certificate.retailer_id c \<noteq> User.id user) (certificates (snd run))
          = filter (\<lambda>c. Certificate.retailer_id c \<noteq> User.id user) (certificates s)"
  proof
    assume "\<exists>err. update_certificate e s certificate_id cert_data user = (Inl err, s)"
    then show ?thesis unfolding run_def by auto
  next
    assume "\<exists>r. User.role user = RETAILER
          \<and> select_certificate s certificate_id = [r]
          \<and> Certificate.retailer_id r = User.id user
          \<and> update_certificate e s certificate_id cert_data user
              = (Inr (update_fields e cert_data r),
                 update_where_id certificate_id (update_fields e cert_data) s)"
    then obtain r where r: "select_certificate s certificate_id = [r]"
      "Certificate.retailer_id r = User.id user"
      and run: "run = (Inr (update_fields e cert_data r),
                 update_where_id certificate_id (update_fields e cert_data) s)"
      unfolding run_def by auto
    from update_where_id_others [OF r, of "update_fields e cert_data"] run
    show ?thesis by (simp add: update_fields_frame)
  qed
qed

lemma upload_certificate_image_owner_only:
  fixes e s certificate_id image_type contents user
  defines "run \<equiv> upload_certificate_image e s certificate_id image_type contents user"
  shows "User.role user \<noteq> RETAILER
         \<Longrightarrow> run = (Inl (HTTPException 403 ''Insufficient permissions''), s)"
    and "\<lbrakk>User.role user = RETAILER; constraints s; c \<in> set (certificates s);
          Certificate.id c = certificate_id; Certificate.retailer_id c \<noteq> User.id user\<rbrakk>
         \<Longrightarrow> run = (Inl (HTTPException 403 ''Access forbidden''), s)"
    and "fst run = Inr r1
         \<Longrightarrow> User.role user = RETAILER
             \<and> (\<exists>c\<in>set (certificates s). Certificate.id c = certificate_id
                    \<and> Certificate.retailer_id c = User.id user)"
    and "filter (\<lambda>c. Certificate.retailer_id c \<noteq> User.id user) (certificates (snd run))
           = filter (\<lambda>c. Certificate.retailer_id c \<noteq> User.id user) (certificates s)"
proof -
  show "User.role user \<noteq> RETAILER
        \<Longrightarrow> run = (Inl (HTTPException 403 ''Insufficient permissions''), s)"
    unfolding run_def by (rule upload_certificate_image_not_retailer)
next
  assume role: "User.role user = RETAILER" and cs: "constraints s"
    and c: "c \<in> set (certificates s)" "Certificate.id c = certificate_id"
    and other: "Certificate.retailer_id c \<noteq> User.id user"
  from cs have "distinct (map Certificate.id (certificates s))"
    by (simp add: constraints_def)
  from select_certificate_known [OF this c(1)] c(2)
  have "select_certificate s certificate_id = [c]" by simp
  from upload_certificate_image_not_owner [OF role this other]
  show "run = (Inl (HTTPException 403 ''Access forbidden''), s)"
    unfolding run_def .
next
  assume ok: "fst run = Inr r1"
  from upload_certificate_image_cases [of e s certificate_id image_type contents user] ok
  obtain r where "User.role user = RETAILER" "select_certificate s certificate_id = [r]"
    "Certificate.retailer_id r = User.id user"
    unfolding run_def by auto
  with select_certificate_member [of s certificate_id r]
  show "User.role user = RETAILER
        \<and> (\<exists>c\<in>set (certificates s). Certificate.id c = certificate_id
               \<and> Certificate.retailer_id c = User.id user)"
    by auto
next
  from upload_certificate_image_cases [of e s certificate_id image_type contents user]
  show "filter (\<lambda>c. Certificate.retailer_id c \<noteq> User.id user) (certificates (snd run))
          = filter (\<lambda>c. Certificate.retailer_id c \<noteq> User.id user) (certificates s)"
  proof
    assume "\<exists>err. upload_certificate_image e s certificate_id image_type contents user
              = (Inl err, s)"
    then show ?thesis unfolding run_def by auto
  next
    assume "\<exists>r. User.role user = RETAILER
          \<and> select_certificate s certificate_id = [r]
          \<and> Certificate.retailer_id r = User.id user
          \<and> upload_certificate_image e s certificate_id image_type contents user
              = (Inr (''Image uploaded successfully'', image_type),
                 update_where_id certificate_id
                   (\<lambda>c. c\<lparr>images := (images r)(image_type \<mapsto> b64encode e contents),
                          updated_at := now e\<rparr>) s)"
    then obtain r where r: "select_certificate s certificate_id = [r]"
      "Certificate.retailer_id r = User.id user"
      and run: "run = (Inr (''Image uploaded successfully'', image_type),
                 update_where_id certificate_id
                   (\<lambda>c. c\<lparr>images := (images r)(image_type \<mapsto> b64encode e contents),
                          updated_at := now e\<rparr>) s)"
      unfolding run_def by auto
    from update_where_id_others
      [OF r, of "\<lambda>c. c\<lparr>images := (images r)(image_type \<mapsto> b64encode e contents),
                          updated_at := now e\<rparr>"] run
    show ?thesis by simp
  qed
qed

lemma update_certificate_mongo_owner_only:
  fixes e s certificate_id cert_data user
  defines "run \<equiv> update_certificate_mongo e s certificate_id cert_data user"
  shows "User.role user \<noteq> RETAILER
         \<Longrightarrow> run = (Inl (HTTPException 403 ''Insufficient permissions''), s)"
    and "\<lbrakk>User.role user = RETAILER; constraints s; c \<in> set (certificates s);
          Certificate.id c = certificate_id; Certificate.retailer_id c \<noteq> User.id user\<rbrakk>
         \<Longrightarrow> run = (Inl (HTTPException 403 ''Access forbidden''), s)"
    and "fst run = Inr r1
         \<Longrightarrow> User.role user = RETAILER
             \<and> (\<exists>c\<in>set (certificates s). Certificate.id c = certificate_id
                    \<and> Certificate.retailer_id c = User.id user)"
    and "filter (\<lambda>c. Certificate.retailer_id c \<noteq> User.id user) (certificates (snd run))
           = filter (\<lambda>c. Certificate.retailer_id c \<noteq> User.id user) (certificates s)"
proof -
  show "User.role user \<noteq> RETAILER
        \<Longrightarrow> run = (Inl (HTTPException 403 ''Insufficient permissions''), s)"
    unfolding run_def by (rule update_certificate_mongo_not_retailer)
next
  assume role: "User.role user = RETAILER" and cs: "constraints s"
    and c: "c \<in> set (certificates s)" "Certificate.id c = certificate_id"
    and other: "Certificate.retailer_id c \<noteq> User.id user"
  from cs have "distinct (map Certificate.id (certificates s))"
    by (simp add: constraints_def)
  from find_one_known [OF this c(1)] c(2)
  have "find_one (\<lambda>x. Certificate.id x = certificate_id) (certificates s) = Some c"
    by simp
  from update_certificate_mongo_not_owner [OF role this other]
  show "run = (Inl (HTTPException 403 ''Access forbidden''), s)"
    unfolding run_def .
next
  assume ok: "fst run = Inr r1"
  from update_certificate_mongo_cases [of e s certificate_id cert_data user] ok
  obtain r where "User.role user = RETAILER"
    "find_one (\<lambda>c. Certificate.id c = certificate_id) (certificates s) = Some r"
    "Certificate.retailer_id r = User.id user"
    unfolding run_def by auto
  with find_one_member [of "\<lambda>c. Certificate.id c = certificate_id" "certificates s" r]
  show "User.role user = RETAILER
        \<and> (\<exists>c\<in>set (certificates s). Certificate.id c = certificate_id
               \<and> Certificate.retailer_id c = User.id user)"
    by auto
next
  from update_certificate_mongo_cases [of e s certificate_id cert_data user]
  consider err where "run = (Inl err, s)"
    | r where "find_one (\<lambda>c. Certificate.id c = certificate_id) (certificates s) = Some r"
        "Certificate.retailer_id r = User.id user"
        "run = (Inr (update_data e cert_data r),
                s\<lparr>certificates :=
                    update_one (\<lambda>c. Certificate.id c = certificate_id)
                      (update_data e cert_data) (certificates s)\<rparr>)"
    unfolding run_def by auto
  then show "filter (\<lambda>c. Certificate.retailer_id c \<noteq> User.id user) (certificates (snd run))
          = filter (\<lambda>c. Certificate.retailer_id c \<noteq> User.id user) (certificates s)"
  proof cases
    case 1
    then show ?thesis by simp
  next
    case 2
    from update_one_others
      [OF 2(1), of "\<lambda>c. Certificate.retailer_id c \<noteq> User.id user" "update_data e cert_data"] 2(2,3)
    show ?thesis by (simp add: update_data_frame)
  qed
qed

lemma upload_certificate_image_mongo_owner_only:
  fixes e s certificate_id image_type contents user
  defines "run \<equiv> upload_certificate_image_mongo e s certificate_id image_type contents user"
  shows "User.role user \<noteq> RETAILER
         \<Longrightarrow> run = (Inl (HTTPException 403 ''Insufficient permissions''), s)"
    and "\<lbrakk>User.role user = RETAILER; constraints s; c \<in> set (certificates s);
          Certificate.id c = certificate_id; Certificate.retailer_id c \<noteq> User.id user\<rbrakk>
         \<Longrightarrow> run = (Inl (HTTPException 403 ''Access forbidden''), s)"
    and "fst run = Inr r1
         \<Longrightarrow> User.role user = RETAILER
             \<and> (\<exists>c\<in>set (certificates s). Certificate.id c = certificate_id
                    \<and> Certificate.retailer_id c = User.id user)"
    and "filter (\<lambda>c. Certificate.retailer_id c \<noteq> User.id user) (certificates (snd run))
           = filter (\<lambda>c. Certificate.retailer_id c \<noteq> User.id user) (certificates s)"
proof -
  show "User.role user \<noteq> RETAILER
        \<Longrightarrow> run = (Inl (HTTPException 403 ''Insufficient permissions''), s)"
    unfolding run_def by (rule upload_certificate_image_mongo_not_retailer)
next
  assume role: "User.role user = RETAILER" and cs: "constraints s"
    and c: "c \<in> set (certificates s)" "Certificate.id c = certificate_id"
    and other: "Certificate.retailer_id c \<noteq> User.id user"
  from cs have "distinct (map Certificate.id (certificates s))"
    by (simp add: constraints_def)
  from find_one_known [OF this c(1)] c(2)
  have "find_one (\<lambda>x. Certificate.id x = certificate_id) (certificates s) = Some c"
    by simp
  from upload_certificate_image_mongo_not_owner [OF role this other]
  show "run = (Inl (HTTPException 403 ''Access forbidden''), s)"
    unfolding run_def .
next
  assume ok: "fst run = Inr r1"
  from upload_certificate_image_mongo_cases [of e s certificate_id image_type contents user] ok
  obtain r where "User.role user = RETAILER"
    "find_one (\<lambda>c. Certificate.id c = certificate_id) (certificates s) = Some r"
    "Certificate.retailer_id r = User.id user"
    unfolding run_def by auto
  with find_one_member [of "\<lambda>c. Certificate.id c = certificate_id" "certificates s" r]
  show "User.role user = RETAILER
        \<and> (\<exists>c\<in>set (certificates s). Certificate.id c = certificate_id
               \<and> Certificate.retailer_id c = User.id user)"
    by auto
next
  from upload_certificate_image_mongo_cases [of e s certificate_id image_type contents user]
  consider err where "run = (Inl err, s)"
    | r where "find_one (\<lambda>c. Certificate.id c = certificate_id) (certificates s) = Some r"
        "Certificate.retailer_id r = User.id user"
        "run = (Inr (''Image uploaded successfully'', image_type),
                s\<lparr>certificates :=
                    update_one (\<lambda>c. Certificate.id c = certificate_id)
                      (\<lambda>c. c\<lparr>images := (images c)(image_type \<mapsto> b64encode e contents), updated_at := bson_datetime (now e)\<rparr>) (certificates s)\<rparr>)"
    unfolding run_def by auto
  then show "filter (\<lambda>c. Certificate.retailer_id c \<noteq> User.id user) (certificates (snd run))
          = filter (\<lambda>c. Certificate.retailer_id c \<noteq> User.id user) (certificates s)"
  proof cases
    case 1
    then show ?thesis by simp
  next
    case 2
    from update_one_others
      [OF 2(1), of "\<lambda>c. Certificate.retailer_id c \<noteq> User.id user" "\<lambda>c. c\<lparr>images := (images c)(image_type \<mapsto> b64encode e contents), updated_at := bson_datetime (now e)\<rparr>"] 2(2,3)
    show ?thesis by (simp)
  qed
qed

text \<open>
  Claim C1. Let \<^verbatim>\<open>run\<close> be the outcome of \<^verbatim>\<open>update_certificate\<close> and \<^verbatim>\<open>put\<close> the outcome
  of \<^verbatim>\<open>upload_certificate_image\<close>, in either backend. A caller whose role is not retailer
  (an administrator, a distributor) is denied with 403 and the store is unchanged. A
  retailer that addresses an existing certificate of another retailer is denied with 403
  and the store is unchanged (in a store that satisfies the uniqueness constraints). Either
  operation succeeds only when the caller's role is retailer and a certificate with the
  requested identifier has the caller as \<^verbatim>\<open>retailer_id\<close>. And whatever the outcome, the
  certificates that the caller does not own are after the operation what they were before.
\<close>

theorem certificate_mutation_owner_only:
  assumes "run = update_certificate e s certificate_id cert_data user
           \<or> run = update_certificate_mongo e s certificate_id cert_data user"
    and "put = upload_certificate_image e s certificate_id image_type contents user
         \<or> put = upload_certificate_image_mongo e s certificate_id image_type contents user"
  shows "(User.role user \<noteq> RETAILER
          \<longrightarrow> run = (Inl (HTTPException 403 ''Insufficient permissions''), s)
              \<and> put = (Inl (HTTPException 403 ''Insufficient permissions''), s))
       \<and> (\<forall>c. User.role user = RETAILER \<and> constraints s \<and> c \<in> set (certificates s)
               \<and> Certificate.id c = certificate_id
               \<and> Certificate.retailer_id c \<noteq> User.id user
              \<longrightarrow> run = (Inl (HTTPException 403 ''Access forbidden''), s)
                  \<and> put = (Inl (HTTPException 403 ''Access forbidden''), s))
       \<and> ((\<exists>r. fst run = Inr r) \<or> (\<exists>m. fst put = Inr m)
            \<longrightarrow> User.role user = RETAILER
                \<and> (\<exists>c\<in>set (certificates s). Certificate.id c = certificate_id
                       \<and> Certificate.retailer_id c = User.id user))
       \<and> filter (\<lambda>c. Certificate.retailer_id c \<noteq> User.id user) (certificates (snd run))
           = filter (\<lambda>c. Certificate.retailer_id c \<noteq> User.id user) (certificates s)
       \<and> filter (\<lambda>c. Certificate.retailer_id c \<noteq> User.id user) (certificates (snd put))
           = filter (\<lambda>c. Certificate.retailer_id c \<noteq> User.id user) (certificates s)"
proof (intro conjI impI allI)
  assume "User.role user \<noteq> RETAILER"
  with assms(1) show "run = (Inl (HTTPException 403 ''Insufficient permissions''), s)"
    by (auto simp: update_certificate_not_retailer update_certificate_mongo_not_retailer)
next
  assume "User.role user \<noteq> RETAILER"
  with assms(2) show "put = (Inl (HTTPException 403 ''Insufficient permissions''), s)"
    by (auto simp: upload_certificate_image_not_retailer
          upload_certificate_image_mongo_not_retailer)
next
  fix c
  assume "User.role user = RETAILER \<and> constraints s \<and> c \<in> set (certificates s)
          \<and> Certificate.id c = certificate_id \<and> Certificate.retailer_id c \<noteq> User.id user"
  then have h: "User.role user = RETAILER" "constraints s" "c \<in> set (certificates s)"
    "Certificate.id c = certificate_id" "Certificate.retailer_id c \<noteq> User.id user"
    by simp_all
  from assms(1) update_certificate_owner_only(2) [OF h]
    update_certificate_mongo_owner_only(2) [OF h]
  show "run = (Inl (HTTPException 403 ''Access forbidden''), s)" by auto
next
  fix c
  assume "User.role user = RETAILER \<and> constraints s \<and> c \<in> set (certificates s)
          \<and> Certificate.id c = certificate_id \<and> Certificate.retailer_id c \<noteq> User.id user"
  then have h: "User.role user = RETAILER" "constraints s" "c \<in> set (certificates s)"
    "Certificate.id c = certificate_id" "Certificate.retailer_id c \<noteq> User.id user"
    by simp_all
  from assms(2) upload_certificate_image_owner_only(2) [OF h]
    upload_certificate_image_mongo_owner_only(2) [OF h]
  show "put = (Inl (HTTPException 403 ''Access forbidden''), s)" by auto
next
  assume ok: "(\<exists>r. fst run = Inr r) \<or> (\<exists>m. fst put = Inr m)"
  have "User.role user = RETAILER
        \<and> (\<exists>c\<in>set (certificates s). Certificate.id c = certificate_id
               \<and> Certificate.retailer_id c = User.id user)"
    using ok
  proof
    assume "\<exists>r. fst run = Inr r"
    then obtain r where "fst run = Inr r" ..
    with assms(1) show ?thesis
      using update_certificate_owner_only(3) [of e s certificate_id cert_data user r]
        update_certificate_mongo_owner_only(3) [of e s certificate_id cert_data user r]
      by auto
  next
    assume "\<exists>m. fst put = Inr m"
    then obtain m where "fst put = Inr m" ..
    with assms(2) show ?thesis
      using upload_certificate_image_owner_only(3)
              [of e s certificate_id image_type contents user m]
        upload_certificate_image_mongo_owner_only(3)
              [of e s certificate_id image_type contents user m]
      by auto
  qed
  then show "User.role user = RETAILER"
    and "\<exists>c\<in>set (certificates s). Certificate.id c = certificate_id
               \<and> Certificate.retailer_id c = User.id user"
    by simp_all
next
  from assms(1)
  show "filter (\<lambda>c. Certificate.retailer_id c \<noteq> User.id user) (certificates (snd run))
           = filter (\<lambda>c. Certificate.retailer_id c \<noteq> User.id user) (certificates s)"
    by (auto simp: update_certificate_owner_only(4) update_certificate_mongo_owner_only(4))
next
  from assms(2)
  show "filter (\<lambda>c. Certificate.retailer_id c \<noteq> User.id user) (certificates (snd put))
           = filter (\<lambda>c. Certificate.retailer_id c \<noteq> User.id user) (certificates s)"
    by (auto simp: upload_certificate_image_owner_only(4)
          upload_certificate_image_mongo_owner_only(4))
qed

theorem certificate_mutation_owner_only_witness:
  "User.role admin0 \<noteq> RETAILER
   \<and> update_certificate env0 store0 ''c1'' flat_update admin0
       = (Inl (HTTPException 403 ''Insufficient permissions''), store0)
   \<and> upload_certificate_image_mongo env0 store0 ''c1'' ''front'' ''img'' admin0
       = (Inl (HTTPException 403 ''Insufficient permissions''), store0)
   \<and> User.role ret2 = RETAILER \<and> constraints store0
   \<and> cert ''c1'' ''CERT0001'' ''u2'' 50 \<in> set (certificates store0)
   \<and> Certificate.id (cert ''c1'' ''CERT0001'' ''u2'' 50) = ''c1''
   \<and> Certificate.retailer_id (cert ''c1'' ''CERT0001'' ''u2'' 50) \<noteq> User.id ret2
   \<and> update_certificate_mongo env0 store0 ''c1'' flat_update ret2
       = (Inl (HTTPException 403 ''Access forbidden''), store0)
   \<and> upload_certificate_image env0 store0 ''c1'' ''front'' ''img'' ret2
       = (Inl (HTTPException 403 ''Access forbidden''), store0)"
proof -
  have admin: "User.role admin0 \<noteq> RETAILER"
    by (simp add: admin0_def RETAILER_def)
  have other: "User.role ret2 = RETAILER"
    "cert ''c1'' ''CERT0001'' ''u2'' 50 \<in> set (certificates store0)"
    "Certificate.id (cert ''c1'' ''CERT0001'' ''u2'' 50) = ''c1''"
    "Certificate.retailer_id (cert ''c1'' ''CERT0001'' ''u2'' 50) \<noteq> User.id ret2"
    by (simp_all add: ret2_def RETAILER_def store0_def cert_def)
  note denied_by_role =
    certificate_mutation_owner_only
      [OF disjI1 [OF refl] disjI2 [OF refl],
       where e = env0 and s = store0 and certificate_id = "''c1''"
         and cert_data = flat_update and user = admin0 and image_type = "''front''"
         and contents = "''img''"]
  note denied_by_owner =
    certificate_mutation_owner_only
      [OF disjI2 [OF refl] disjI1 [OF refl],
       where e = env0 and s = store0 and certificate_id = "''c1''"
         and cert_data = flat_update and user = ret2 and image_type = "''front''"
         and contents = "''img''"]
  from denied_by_role admin
  have 1: "update_certificate env0 store0 ''c1'' flat_update admin0
             = (Inl (HTTPException 403 ''Insufficient permissions''), store0)
         \<and> upload_certificate_image_mongo env0 store0 ''c1'' ''front'' ''img'' admin0
             = (Inl (HTTPException 403 ''Insufficient permissions''), store0)"
    by blast
  from denied_by_owner other constraints_store0
  have 2: "update_certificate_mongo env0 store0 ''c1'' flat_update ret2
             = (Inl (HTTPException 403 ''Access forbidden''), store0)
         \<and> upload_certificate_image env0 store0 ''c1'' ''front'' ''img'' ret2
             = (Inl (HTTPException 403 ''Access forbidden''), store0)"
    by blast
  from admin other constraints_store0 1 2 show ?thesis by simp
qed


subsection \<open>What an update leaves alone\<close>

lemma filter_single_find_one:
  "filter P xs = [r] \<Longrightarrow> find_one P xs = Some r"
  unfolding find_one_def by (induction xs) (auto split: if_splits)

lemma select_certificate_find_one:
  "select_certificate s certificate_id = [r]
   \<Longrightarrow> find_one (\<lambda>c. Certificate.id c = certificate_id) (certificates s) = Some r"
  by (simp add: select_certificate_def filter_single_find_one)

lemma update_certificate_result:
  assumes "fst (update_certificate e s certificate_id cert_data user) = Inr r1"
  shows "\<exists>r. select_certificate s certificate_id = [r]
           \<and> select_certificate (snd (update_certificate e s certificate_id cert_data user))
                certificate_id = [r1]
           \<and> Certificate.retailer_id r = User.id user
           \<and> r1 = update_fields e cert_data r"
proof -
  from update_certificate_cases [of e s certificate_id cert_data user] assms
  obtain r where r: "select_certificate s certificate_id = [r]"
    "Certificate.retailer_id r = User.id user"
    and run: "update_certificate e s certificate_id cert_data user
              = (Inr (update_fields e cert_data r),
                 update_where_id certificate_id (update_fields e cert_data) s)"
    by auto
  from run assms have r1: "r1 = update_fields e cert_data r" by simp
  have "select_certificate (update_where_id certificate_id (update_fields e cert_data) s)
          certificate_id = [update_fields e cert_data r]"
    using r(1) by (simp add: select_update_where_id update_fields_frame)
  with r r1 run show ?thesis by simp
qed

lemma update_certificate_mongo_result:
  assumes "fst (update_certificate_mongo e s certificate_id cert_data user) = Inr r1"
  shows "\<exists>r. find_one (\<lambda>c. Certificate.id c = certificate_id) (certificates s) = Some r
           \<and> find_one (\<lambda>c. Certificate.id c = certificate_id)
                (certificates (snd (update_certificate_mongo e s certificate_id cert_data user)))
               = Some r1
           \<and> Certificate.retailer_id r = User.id user
           \<and> r1 = update_data e cert_data r"
proof -
  from update_certificate_mongo_cases [of e s certificate_id cert_data user] assms
  obtain r where r: "find_one (\<lambda>c. Certificate.id c = certificate_id) (certificates s) = Some r"
    "Certificate.retailer_id r = User.id user"
    and run: "update_certificate_mongo e s certificate_id cert_data user
              = (Inr (update_data e cert_data r),
                 s\<lparr>certificates :=
                     update_one (\<lambda>c. Certificate.id c = certificate_id)
                       (update_data e cert_data) (certificates s)\<rparr>)"
    by auto
  from run assms have r1: "r1 = update_data e cert_data r" by simp
  from find_one_member [OF r(1)] have "Certificate.id r = certificate_id" by simp
  then have "Certificate.id (update_data e cert_data r) = certificate_id"
    by (simp add: update_data_frame)
  from update_one_find [OF r(1), of "update_data e cert_data", OF this] r r1 run
  show ?thesis by simp
qed

lemma update_certificate_store0:
  "update_certificate env0 store0 ''c1'' flat_update ret1
     = (Inr ((cert ''c1'' ''CERT0001'' ''u2'' 50)
              \<lparr>Certificate.dealer_name := ''New Dealer'',
               Certificate.status := ''submitted'', updated_at := 100\<rparr>),
        store0\<lparr>certificates :=
          [(cert ''c1'' ''CERT0001'' ''u2'' 50)
              \<lparr>Certificate.dealer_name := ''New Dealer'',
               Certificate.status := ''submitted'', updated_at := 100\<rparr>,
           cert ''c2'' ''CERT0002'' ''u3'' 60, cert ''c3'' ''CERT0003'' ''u2'' 70]\<rparr>)"
  by (simp add: update_certificate_def require_roles_def scalar_one_or_none_def
        select_certificate_def update_where_id_def update_fields_def flat_update_def
        store0_def cert_def ret1_def env0_def RETAILER_def Let_def)

text \<open>
  Claim C9, as stated, fails in its last part. \<^verbatim>\<open>updated_at\<close> is overwritten with the
  reading of the clock and never compared with the stored value: an update at a clock
  reading equal to the stored \<^verbatim>\<open>updated_at\<close> (50) leaves it at 50, and one at an earlier
  reading (40, a clock that was set back) lowers it. In the document backend a clock that
  has advanced is not enough either: an update half a millisecond after the stored value
  returns the stored value.
\<close>

theorem updated_at_counterexample:
  "fst (update_certificate (env0\<lparr>now := 50\<rparr>) store0 ''c1'' flat_update ret1)
     = Inr ((cert ''c1'' ''CERT0001'' ''u2'' 50)
              \<lparr>Certificate.dealer_name := ''New Dealer'',
               Certificate.status := ''submitted'', updated_at := 50\<rparr>)
   \<and> fst (update_certificate (env0\<lparr>now := 40\<rparr>) store0 ''c1'' flat_update ret1)
     = Inr ((cert ''c1'' ''CERT0001'' ''u2'' 50)
              \<lparr>Certificate.dealer_name := ''New Dealer'',
               Certificate.status := ''submitted'', updated_at := 40\<rparr>)
   \<and> updated_at (cert ''c1'' ''CERT0001'' ''u2'' 50) = 50
   \<and> fst (update_certificate_mongo (env0\<lparr>now := 100001500\<rparr>)
            (store0\<lparr>certificates := [cert ''c1'' ''CERT0001'' ''u2'' 100001000]\<rparr>)
            ''c1'' flat_update ret1)
     = Inr ((cert ''c1'' ''CERT0001'' ''u2'' 100001000)
              \<lparr>Certificate.dealer_name := ''New Dealer'',
               Certificate.status := ''submitted'', updated_at := 100001000\<rparr>)"
  by (simp add: update_certificate_def update_certificate_mongo_def require_roles_def
        scalar_one_or_none_def select_certificate_def update_where_id_def update_fields_def
        update_data_def find_one_def bson_datetime_def flat_update_def
        store0_def cert_def ret1_def env0_def RETAILER_def Let_def)

text \<open>
  Claim C9, amended. Let \<^verbatim>\<open>run\<close> be a successful \<^verbatim>\<open>update_certificate\<close> in either
  backend, returning the certificate \<^verbatim>\<open>r1\<close>, and let \<^verbatim>\<open>stamp\<close> be the time that the
  backend keeps for the update: the clock reading of the update in the relational backend,
  that reading cut down to the millisecond in the document backend. Then the store held a
  certificate \<^verbatim>\<open>r\<close> under the requested identifier, owned by the caller, and holds
  \<^verbatim>\<open>r1\<close> under it afterwards; \<^verbatim>\<open>id\<close>, \<^verbatim>\<open>certificate_no\<close> and \<^verbatim>\<open>retailer_id\<close> of
  \<^verbatim>\<open>r1\<close> are those of \<^verbatim>\<open>r\<close>; and \<^verbatim>\<open>updated_at\<close> of \<^verbatim>\<open>r1\<close> is \<^verbatim>\<open>stamp\<close>, so it is
  strictly greater than before exactly when \<^verbatim>\<open>stamp\<close> is later than the stored value.
\<close>

theorem update_certificate_frame:
  assumes "run = update_certificate e s certificate_id cert_data user \<and> stamp = now e
           \<or> run = update_certificate_mongo e s certificate_id cert_data user
               \<and> stamp = bson_datetime (now e)"
    and "fst run = Inr r1"
  shows "\<exists>r. find_one (\<lambda>c. Certificate.id c = certificate_id) (certificates s) = Some r
           \<and> find_one (\<lambda>c. Certificate.id c = certificate_id) (certificates (snd run))
               = Some r1
           \<and> Certificate.retailer_id r = User.id user
           \<and> Certificate.id r1 = Certificate.id r
           \<and> certificate_no r1 = certificate_no r
           \<and> Certificate.retailer_id r1 = Certificate.retailer_id r
           \<and> updated_at r1 = stamp
           \<and> (updated_at r < updated_at r1 \<longleftrightarrow> updated_at r < stamp)"
  using assms(1)
proof
  assume "run = update_certificate e s certificate_id cert_data user \<and> stamp = now e"
  then have run: "run = update_certificate e s certificate_id cert_data user"
    and stamp: "stamp = now e" by simp_all
  with assms(2) update_certificate_result [of e s certificate_id cert_data user r1]
  obtain r where r: "select_certificate s certificate_id = [r]"
    "select_certificate (snd run) certificate_id = [r1]"
    "Certificate.retailer_id r = User.id user" "r1 = update_fields e cert_data r"
    by auto
  from r(1,2) have "find_one (\<lambda>c. Certificate.id c = certificate_id) (certificates s) = Some r"
    "find_one (\<lambda>c. Certificate.id c = certificate_id) (certificates (snd run)) = Some r1"
    by (simp_all add: select_certificate_find_one)
  with r(3,4) stamp show ?thesis by (simp add: update_fields_frame)
next
  assume "run = update_certificate_mongo e s certificate_id cert_data user
          \<and> stamp = bson_datetime (now e)"
  then have run: "run = update_certificate_mongo e s certificate_id cert_data user"
    and stamp: "stamp = bson_datetime (now e)" by simp_all
  with assms(2) update_certificate_mongo_result [of e s certificate_id cert_data user r1]
  obtain r where
    "find_one (\<lambda>c. Certificate.id c = certificate_id) (certificates s) = Some r"
    "find_one (\<lambda>c. Certificate.id c = certificate_id) (certificates (snd run)) = Some r1"
    "Certificate.retailer_id r = User.id user" "r1 = update_data e cert_data r"
    by auto
  with stamp show ?thesis by (simp add: update_data_frame)
qed

theorem update_certificate_frame_witness:
  "fst (update_certificate env0 store0 ''c1'' flat_update ret1)
     = Inr ((cert ''c1'' ''CERT0001'' ''u2'' 50)
              \<lparr>Certificate.dealer_name := ''New Dealer'',
               Certificate.status := ''submitted'', updated_at := 100\<rparr>)
   \<and> (\<exists>r. find_one (\<lambda>c. Certificate.id c = ''c1'') (certificates store0) = Some r
          \<and> Certificate.retailer_id r = User.id ret1
          \<and> Certificate.id r = ''c1''
          \<and> certificate_no r = ''CERT0001''
          \<and> updated_at r < now env0)"
proof -
  have ok: "fst (update_certificate env0 store0 ''c1'' flat_update ret1)
     = Inr ((cert ''c1'' ''CERT0001'' ''u2'' 50)
              \<lparr>Certificate.dealer_name := ''New Dealer'',
               Certificate.status := ''submitted'', updated_at := 100\<rparr>)"
    by (simp add: update_certificate_store0)
  from update_certificate_frame [OF disjI1 [OF conjI [OF refl refl]] ok]
  obtain r where "find_one (\<lambda>c. Certificate.id c = ''c1'') (certificates store0) = Some r"
    "Certificate.retailer_id r = User.id ret1"
    "Certificate.id ((cert ''c1'' ''CERT0001'' ''u2'' 50)
              \<lparr>Certificate.dealer_name := ''New Dealer'',
               Certificate.status := ''submitted'', updated_at := 100\<rparr>) = Certificate.id r"
    "certificate_no ((cert ''c1'' ''CERT0001'' ''u2'' 50)
              \<lparr>Certificate.dealer_name := ''New Dealer'',
               Certificate.status := ''submitted'', updated_at := 100\<rparr>) = certificate_no r"
    "updated_at r < updated_at ((cert ''c1'' ''CERT0001'' ''u2'' 50)
              \<lparr>Certificate.dealer_name := ''New Dealer'',
               Certificate.status := ''submitted'', updated_at := 100\<rparr>)
      \<longleftrightarrow> updated_at r < now env0"
    by blast
  moreover have "updated_at r < 100"
    using \<open>find_one (\<lambda>c. Certificate.id c = ''c1'') (certificates store0) = Some r\<close>
    by (auto simp: find_one_def store0_def cert_def)
  ultimately have "find_one (\<lambda>c. Certificate.id c = ''c1'') (certificates store0) = Some r
          \<and> Certificate.retailer_id r = User.id ret1
          \<and> Certificate.id r = ''c1''
          \<and> certificate_no r = ''CERT0001''
          \<and> updated_at r < now env0"
    by (simp add: cert_def)
  then have "\<exists>r. find_one (\<lambda>c. Certificate.id c = ''c1'') (certificates store0) = Some r
          \<and> Certificate.retailer_id r = User.id ret1
          \<and> Certificate.id r = ''c1''
          \<and> certificate_no r = ''CERT0001''
          \<and> updated_at r < now env0" ..
  with ok show ?thesis by (rule conjI)
qed


subsection \<open>Attaching images\<close>

lemma upload_certificate_image_step:
  assumes "User.role user = RETAILER" and "select_certificate s certificate_id = [c]"
    and "Certificate.retailer_id c = User.id user"
    and "image_type \<in> set [''front'', ''back'', ''side1'', ''side2'']"
  shows "fst (upload_certificate_image e s certificate_id image_type contents user)
           = Inr (''Image uploaded successfully'', image_type)"
    and "select_certificate
           (snd (upload_certificate_image e s certificate_id image_type contents user))
           certificate_id
         = [c\<lparr>images := (images c)(image_type \<mapsto> b64encode e contents),
              updated_at := now e\<rparr>]"
  using assms upload_certificate_image_owner [OF assms, of e contents]
  by (simp_all add: select_update_where_id)

lemma upload_certificate_image_mongo_step:
  assumes "User.role user = RETAILER"
    and "find_one (\<lambda>x. Certificate.id x = certificate_id) (certificates s) = Some c"
    and "Certificate.retailer_id c = User.id user"
    and "image_type \<in> set [''front'', ''back'', ''side1'', ''side2'']"
  shows "fst (upload_certificate_image_mongo e s certificate_id image_type contents user)
           = Inr (''Image uploaded successfully'', image_type)"
    and "find_one (\<lambda>x. Certificate.id x = certificate_id)
           (certificates
              (snd (upload_certificate_image_mongo e s certificate_id image_type contents user)))
         = Some (c\<lparr>images := (images c)(image_type \<mapsto> b64encode e contents),
                   updated_at := bson_datetime (now e)\<rparr>)"
proof -
  note run = upload_certificate_image_mongo_owner [OF assms, of e contents]
  from run show "fst (upload_certificate_image_mongo e s certificate_id image_type contents user)
           = Inr (''Image uploaded successfully'', image_type)"
    by simp
  from find_one_member [OF assms(2)] have "Certificate.id c = certificate_id" by simp
  then have "Certificate.id (c\<lparr>images := (images c)(image_type \<mapsto> b64encode e contents),
                   updated_at := bson_datetime (now e)\<rparr>) = certificate_id"
    by simp
  from update_one_find
    [OF assms(2),
     of "\<lambda>c. c\<lparr>images := (images c)(image_type \<mapsto> b64encode e contents),
                   updated_at := bson_datetime (now e)\<rparr>", OF this] run
  show "find_one (\<lambda>x. Certificate.id x = certificate_id)
           (certificates
              (snd (upload_certificate_image_mongo e s certificate_id image_type contents user)))
         = Some (c\<lparr>images := (images c)(image_type \<mapsto> b64encode e contents),
                   updated_at := bson_datetime (now e)\<rparr>)"
    by simp
qed

text \<open>
  Claim C10. Let a retailer own the certificate \<^verbatim>\<open>c\<close>, stored under its identifier in a
  store that satisfies the uniqueness constraints. Attaching an image with tag
  \<^verbatim>\<open>front\<close> and then one with tag \<^verbatim>\<open>back\<close> succeeds twice and leaves the certificate
  with the image map of \<^verbatim>\<open>c\<close> updated at the two keys, each holding the base64 text of
  its own upload. Attaching \<^verbatim>\<open>front\<close> a second time instead leaves the image map of
  \<^verbatim>\<open>c\<close> updated at the one key \<^verbatim>\<open>front\<close>, holding the text of the second upload. In
  both cases every other key keeps the value it had in \<^verbatim>\<open>c\<close>, and \<^verbatim>\<open>updated_at\<close> is the
  clock reading of the last upload, cut down to the millisecond in the document backend.
  Both backends behave so.
\<close>

theorem image_attachment_map_update:
  assumes "User.role user = RETAILER" and "constraints s"
    and "c \<in> set (certificates s)" and "Certificate.id c = certificate_id"
    and "Certificate.retailer_id c = User.id user"
  shows
    "(let s1 = snd (upload_certificate_image e1 s certificate_id ''front'' p1 user);
          s2 = snd (upload_certificate_image e2 s1 certificate_id ''back'' p2 user);
          s3 = snd (upload_certificate_image e2 s1 certificate_id ''front'' p2 user)
      in fst (upload_certificate_image e1 s certificate_id ''front'' p1 user)
           = Inr (''Image uploaded successfully'', ''front'')
       \<and> fst (upload_certificate_image e2 s1 certificate_id ''back'' p2 user)
           = Inr (''Image uploaded successfully'', ''back'')
       \<and> fst (upload_certificate_image e2 s1 certificate_id ''front'' p2 user)
           = Inr (''Image uploaded successfully'', ''front'')
       \<and> select_certificate s1 certificate_id
           = [c\<lparr>images := (images c)(''front'' \<mapsto> b64encode e1 p1), updated_at := now e1\<rparr>]
       \<and> select_certificate s2 certificate_id
           = [c\<lparr>images := (images c)(''front'' \<mapsto> b64encode e1 p1,
                                       ''back'' \<mapsto> b64encode e2 p2),
                updated_at := now e2\<rparr>]
       \<and> select_certificate s3 certificate_id
           = [c\<lparr>images := (images c)(''front'' \<mapsto> b64encode e2 p2), updated_at := now e2\<rparr>])
   \<and> (let s1 = snd (upload_certificate_image_mongo e1 s certificate_id ''front'' p1 user);
          s2 = snd (upload_certificate_image_mongo e2 s1 certificate_id ''back'' p2 user);
          s3 = snd (upload_certificate_image_mongo e2 s1 certificate_id ''front'' p2 user)
      in find_one (\<lambda>x. Certificate.id x = certificate_id) (certificates s1)
           = Some (c\<lparr>images := (images c)(''front'' \<mapsto> b64encode e1 p1),
                     updated_at := bson_datetime (now e1)\<rparr>)
       \<and> find_one (\<lambda>x. Certificate.id x = certificate_id) (certificates s2)
           = Some (c\<lparr>images := (images c)(''front'' \<mapsto> b64encode e1 p1,
                                            ''back'' \<mapsto> b64encode e2 p2),
                     updated_at := bson_datetime (now e2)\<rparr>)
       \<and> find_one (\<lambda>x. Certificate.id x = certificate_id) (certificates s3)
           = Some (c\<lparr>images := (images c)(''front'' \<mapsto> b64encode e2 p2),
                     updated_at := bson_datetime (now e2)\<rparr>))"
proof -
  from assms(2) have d: "distinct (map Certificate.id (certificates s))"
    by (simp add: constraints_def)
  have tag_front: "''front'' \<in> set [''front'', ''back'', ''side1'', ''side2'']"
    and tag_back: "''back'' \<in> set [''front'', ''back'', ''side1'', ''side2'']"
    by simp_all
  let ?c1 = "c\<lparr>images := (images c)(''front'' \<mapsto> b64encode e1 p1), updated_at := now e1\<rparr>"
  have own1: "Certificate.retailer_id ?c1 = User.id user"
    using assms(5) by simp
  from select_certificate_known [OF d assms(3)] assms(4)
  have sel: "select_certificate s certificate_id = [c]" by simp
  note a1 = upload_certificate_image_step [OF assms(1) sel assms(5) tag_front, of e1 p1]
  note a2 = upload_certificate_image_step [OF assms(1) a1(2) own1 tag_back, of e2 p2]
  note a3 = upload_certificate_image_step [OF assms(1) a1(2) own1 tag_front, of e2 p2]
  from find_one_known [OF d assms(3)] assms(4)
  have fnd: "find_one (\<lambda>x. Certificate.id x = certificate_id) (certificates s) = Some c"
    by simp
  note b1 = upload_certificate_image_mongo_step [OF assms(1) fnd assms(5) tag_front, of e1 p1]
  have own2: "Certificate.retailer_id
                (c\<lparr>images := (images c)(''front'' \<mapsto> b64encode e1 p1),
                   updated_at := bson_datetime (now e1)\<rparr>) = User.id user"
    using assms(5) by simp
  note b2 = upload_certificate_image_mongo_step [OF assms(1) b1(2) own2 tag_back, of e2 p2]
  note b3 = upload_certificate_image_mongo_step [OF assms(1) b1(2) own2 tag_front, of e2 p2]
  from a1 a2 a3 b1 b2 b3 show ?thesis
    by (simp add: Let_def)
qed

theorem image_attachment_map_update_witness:
  "User.role ret1 = RETAILER \<and> constraints store0
   \<and> cert ''c1'' ''CERT0001'' ''u2'' 50 \<in> set (certificates store0)
   \<and> Certificate.id (cert ''c1'' ''CERT0001'' ''u2'' 50) = ''c1''
   \<and> Certificate.retailer_id (cert ''c1'' ''CERT0001'' ''u2'' 50) = User.id ret1
   \<and> select_certificate
         (snd (upload_certificate_image env0
                 (snd (upload_certificate_image env0 store0 ''c1'' ''front'' ''A'' ret1))
                 ''c1'' ''back'' ''B'' ret1))
         ''c1''
       = [(cert ''c1'' ''CERT0001'' ''u2'' 50)
            \<lparr>images := [''front'' \<mapsto> ''b64:A'', ''back'' \<mapsto> ''b64:B''], updated_at := 100\<rparr>]
   \<and> select_certificate
         (snd (upload_certificate_image env0
                 (snd (upload_certificate_image env0 store0 ''c1'' ''front'' ''A'' ret1))
                 ''c1'' ''front'' ''B'' ret1))
         ''c1''
       = [(cert ''c1'' ''CERT0001'' ''u2'' 50)
            \<lparr>images := [''front'' \<mapsto> ''b64:B''], updated_at := 100\<rparr>]"
proof -
  have h: "User.role ret1 = RETAILER"
    "cert ''c1'' ''CERT0001'' ''u2'' 50 \<in> set (certificates store0)"
    "Certificate.id (cert ''c1'' ''CERT0001'' ''u2'' 50) = ''c1''"
    "Certificate.retailer_id (cert ''c1'' ''CERT0001'' ''u2'' 50) = User.id ret1"
    by (simp_all add: ret1_def RETAILER_def store0_def cert_def)
  have enc: "b64encode env0 ''A'' = ''b64:A''" "b64encode env0 ''B'' = ''b64:B''"
    "now env0 = 100" "images (cert ''c1'' ''CERT0001'' ''u2'' 50) = Map.empty"
    by (simp_all add: env0_def cert_def)
  from image_attachment_map_update
         [OF h(1) constraints_store0 h(2,3,4), of env0 "''A''" env0 "''B''"]
  show ?thesis
    using h constraints_store0 by (simp add: Let_def enc)
qed


section \<open>Further facts about the model\<close>

text \<open>
  An update that carries nested details: the relational handler raises before it writes,
  the document handler applies it.
\<close>

lemma update_certificate_nested:
  "update_certificate env0 store0 ''c1'' nested_update ret1 = (Inl AttributeError, store0)"
  "fst (update_certificate_mongo env0 store0 ''c1'' nested_update ret1)
     = Inr ((cert ''c1'' ''CERT0001'' ''u2'' 50)
              \<lparr>Certificate.dealer_name := ''New Dealer'',
               Certificate.status := ''submitted'', updated_at := 0\<rparr>)"
  by (simp_all add: update_certificate_def update_certificate_mongo_def require_roles_def
        scalar_one_or_none_def select_certificate_def find_one_def update_data_def
        bson_datetime_def
        nested_update_def flat_update_def store0_def cert_def ret1_def env0_def RETAILER_def
        Let_def)

text \<open>
  The uniqueness constraints are an invariant of the relational handlers that write: a
  store that satisfies them still does after a registration, an update or an upload,
  whatever the outcome.
\<close>

lemma update_where_id_constraints:
  assumes "constraints s"
    and "\<And>c. Certificate.id (f c) = Certificate.id c"
    and "\<And>c. certificate_no (f c) = certificate_no c"
  shows "constraints (update_where_id certificate_id f s)"
proof -
  have "map Certificate.id
          (map (\<lambda>c. if Certificate.id c = certificate_id then f c else c) (certificates s))
        = map Certificate.id (certificates s)"
    "map certificate_no
          (map (\<lambda>c. if Certificate.id c = certificate_id then f c else c) (certificates s))
        = map certificate_no (certificates s)"
    using assms(2,3) by simp_all
  with assms(1) show ?thesis
    by (simp add: constraints_def update_where_id_def del: map_map)
qed

lemma register_user_constraints:
  assumes "constraints s"
  shows "constraints (snd (register_user e s user_data current_user))"
  using assms
  by (auto simp: register_user_def constraints_def add_user_def add_relationship_def
        hash_password_def Let_def User.defs
        split: sum.splits option.splits if_splits list.splits)

lemma update_certificate_constraints:
  assumes "constraints s"
  shows "constraints (snd (update_certificate e s certificate_id cert_data user))"
  using update_certificate_cases [of e s certificate_id cert_data user] assms
  by (auto simp: update_where_id_constraints update_fields_frame)

lemma upload_certificate_image_constraints:
  assumes "constraints s"
  shows "constraints
           (snd (upload_certificate_image e s certificate_id image_type contents user))"
  using upload_certificate_image_cases [of e s certificate_id image_type contents user] assms
  by (auto simp: update_where_id_constraints)


end
